theory Spec2Isabelle
  imports Main
begin

section \<open>JavaScript values read by the form scripts\<close>

text \<open>
  The form scripts of the XML importer read properties of JSON objects: the document
  of the form (\<open>frm.doc\<close>) and the response of a server method (\<open>r.message\<close>).
  A property is absent (\<open>undefined\<close>), \<open>null\<close>, or holds a value. The type of the
  value is the one the script uses the property at: a number where it is compared or
  counted, a string where it is shown, a flag where it is only tested, an array where
  the script iterates.
\<close>

datatype 'a js = Undefined | Null | Val 'a

text \<open>
  Reading a property of \<open>undefined\<close> or \<open>null\<close>, or calling a method on them,
  throws a \<open>TypeError\<close>. No handler of the scripts catches it: the handler stops
  there.
\<close>

datatype js_error = TypeError

text \<open>Truthiness, as \<open>if (x)\<close>, \<open>x && ...\<close>, \<open>x || ...\<close> and \<open>x ? a : b\<close> test it.\<close>

fun truthy_str :: "string js \<Rightarrow> bool" where
  "truthy_str (Val s) = (s \<noteq> [])"
| "truthy_str _ = False"

fun truthy_num :: "int js \<Rightarrow> bool" where
  "truthy_num (Val n) = (n \<noteq> 0)"
| "truthy_num _ = False"

fun truthy_bool :: "bool js \<Rightarrow> bool" where
  "truthy_bool (Val b) = b"
| "truthy_bool _ = False"

text \<open>An object or an array is truthy whenever it is there, an empty array too.\<close>

fun truthy_obj :: "'a js \<Rightarrow> bool" where
  "truthy_obj (Val _) = True"
| "truthy_obj _ = False"

text \<open>\<open>ToNumber\<close>: \<open>undefined\<close> is \<open>NaN\<close> (here \<open>None\<close>), \<open>null\<close> is 0.\<close>

fun to_number :: "int js \<Rightarrow> int option" where
  "to_number Undefined = None"
| "to_number Null = Some 0"
| "to_number (Val n) = Some n"

text \<open>\<open>x > k\<close> and \<open>x < k\<close>: every comparison with \<open>NaN\<close> is false.\<close>

definition js_gt :: "int js \<Rightarrow> int \<Rightarrow> bool" where
  "js_gt x k = (case to_number x of None \<Rightarrow> False | Some n \<Rightarrow> n > k)"

definition js_lt :: "int js \<Rightarrow> int \<Rightarrow> bool" where
  "js_lt x k = (case to_number x of None \<Rightarrow> False | Some n \<Rightarrow> n < k)"

text \<open>\<open>a || b\<close> on two properties of the same type.\<close>

definition or_str :: "string js \<Rightarrow> string js \<Rightarrow> string js" where
  "or_str a b = (if truthy_str a then a else b)"

definition or_num :: "int js \<Rightarrow> int js \<Rightarrow> int js" where
  "or_num a b = (if truthy_num a then a else b)"

text \<open>\<open>xs && xs.length > 0\<close>, the guard in front of every \<open>forEach\<close> and \<open>join\<close>.\<close>

fun non_empty :: "'a list js \<Rightarrow> bool" where
  "non_empty (Val xs) = (length xs > 0)"
| "non_empty _ = False"

text \<open>The elements a guarded \<open>forEach\<close> visits.\<close>

fun elements :: "'a list js \<Rightarrow> 'a list" where
  "elements (Val xs) = xs"
| "elements _ = []"

text \<open>\<open>xs.join(sep)\<close> on an array of strings.\<close>

fun join :: "string \<Rightarrow> string list \<Rightarrow> string" where
  "join sep [] = []"
| "join sep [x] = x"
| "join sep (x # y # ys) = x @ sep @ join sep (y # ys)"

subsection \<open>Characters outside ASCII, as their UTF-8 bytes\<close>

definition bullet :: string where \<comment> \<open>U+2022\<close>
  "bullet = [CHR 0xE2, CHR 0x80, CHR 0xA2]"

definition play_sign :: string where \<comment> \<open>U+25B6 U+FE0F\<close>
  "play_sign = [CHR 0xE2, CHR 0x96, CHR 0xB6, CHR 0xEF, CHR 0xB8, CHR 0x8F]"

definition warning_sign :: string where \<comment> \<open>U+26A0 U+FE0F\<close>
  "warning_sign = [CHR 0xE2, CHR 0x9A, CHR 0xA0, CHR 0xEF, CHR 0xB8, CHR 0x8F]"

definition check_mark :: string where \<comment> \<open>U+2705\<close>
  "check_mark = [CHR 0xE2, CHR 0x9C, CHR 0x85]"

definition cross_mark :: string where \<comment> \<open>U+274C\<close>
  "cross_mark = [CHR 0xE2, CHR 0x9D, CHR 0x8C]"

definition party_popper :: string where \<comment> \<open>U+1F389\<close>
  "party_popper = [CHR 0xF0, CHR 0x9F, CHR 0x8E, CHR 0x89]"

definition direct_hit :: string where \<comment> \<open>U+1F3AF\<close>
  "direct_hit = [CHR 0xF0, CHR 0x9F, CHR 0x8E, CHR 0xAF]"

definition bug_sign :: string where \<comment> \<open>U+1F41B\<close>
  "bug_sign = [CHR 0xF0, CHR 0x9F, CHR 0x90, CHR 0x9B]"

definition clipboard :: string where \<comment> \<open>U+1F4CB\<close>
  "clipboard = [CHR 0xF0, CHR 0x9F, CHR 0x93, CHR 0x8B]"

definition empty_mailbox :: string where \<comment> \<open>U+1F4ED\<close>
  "empty_mailbox = [CHR 0xF0, CHR 0x9F, CHR 0x93, CHR 0xAD]"

definition magnifier :: string where \<comment> \<open>U+1F50D\<close>
  "magnifier = [CHR 0xF0, CHR 0x9F, CHR 0x94, CHR 0x8D]"

definition dquote :: string where
  "dquote = [CHR 0x22]"

section \<open>Rendered messages\<close>

text \<open>
  A message is built from template literals. A fragment is literal text of the template
  (\<open>Lit\<close>) or a substitution \<open>${...}\<close> of a value (\<open>SubS\<close> a string property,
  \<open>SubN\<close> a number property), so that text a value brings in is never taken for a
  label of the script. \<open>__('...')\<close> is the translation lookup of the host framework;
  the model keeps the text of the source.
\<close>

datatype frag = Lit string | SubS "string js" | SubN "int js" | SubLower string

text \<open>
  \<open>SubLower s\<close> is the substitution \<open>${x.toLowerCase()}\<close> for a string \<open>x\<close> of
  value \<open>s\<close>: the lowering is the one of the JavaScript runtime, and is kept as such.
  On \<open>undefined\<close> and \<open>null\<close> the call throws.
\<close>

definition toLowerCase :: "string js \<Rightarrow> js_error + frag" where
  "toLowerCase x = (case x of Val s \<Rightarrow> Inr (SubLower s) | _ \<Rightarrow> Inl TypeError)"

datatype style = Plain | Text_Danger | Text_Warning

text \<open>
  The markup the scripts emit. \<open>Row l st c\<close> is
  \<open><tr><td><strong>l</strong></td><td class=st>c</td></tr>\<close>; \<open>Cells\<close> is a row of
  plain \<open><td>\<close> cells, \<open>Header_Row\<close> one of \<open><th>\<close> cells; \<open>Alert k h b\<close> is
  \<open><div class="alert k"><h5>h</h5>b</div>\<close> (its inline margin is left out); \<open>Text\<close>
  is a message without markup. White space between the tags is not kept.
\<close>

datatype html =
    H4 string
  | Para "frag list"
  | Ul "string list"
  | Table_Open
  | Table_Close
  | Header_Row "string list"
  | Row string style "frag list"
  | Cells "frag list list"
  | Alert string "frag list" "html list"
  | Text "frag list"

section \<open>Documents, forms, responses and effects\<close>

text \<open>
  The configuration document: \<open>enabled\<close> is a check box (0 or 1); \<open>xml_feed_url\<close>
  and the select field \<open>import_type\<close> (Orders, Items) may be unset.
\<close>

record document =
  name :: string
  enabled :: "int js"
  xml_feed_url :: "string js"
  import_type :: "string js"

record form =
  doc :: document
  is_new :: bool

text \<open>The response \<open>r\<close> handed to a \<open>callback\<close>.\<close>

record 'm response =
  exc :: "string js"
  message :: "'m js"

text \<open>The callbacks of the scripts, by the method they are attached to.\<close>

datatype callback =
    Cb_trigger_manual_import
  | Cb_check_stream_length
  | Cb_debug_xml_feed
  | Cb_aggressive_import_check
  | Cb_import_from_pasted_content
  | Cb_test_connection
  | Err_test_connection
  | Cb_settings_manual_import
  | Err_settings_manual_import

text \<open>
  What a handler does, in order. \<open>Confirm t k\<close> is \<open>frappe.confirm(t, k)\<close>: \<open>k\<close> runs
  only if the operator confirms. \<open>Call m d args cb err\<close> is \<open>frappe.call\<close> with method
  \<open>m\<close>, document \<open>d\<close>, arguments, callback and error callback. \<open>Msgprint\<close> carries
  title, message, indicator and the \<open>wide\<close> flag. \<open>Uncaught e\<close> is the exception
  \<open>e\<close> leaving the handler: it is the last thing the handler does.
\<close>

datatype action =
    Console_Log string
  | Msgprint "string option" "html list" "string option" bool
  | Show_Alert "frag list" string
  | Confirm "frag list" "action list"
  | Call string document "(string \<times> string js) list" callback "callback option"
  | Reload_Doc
  | Disable_Form
  | Enable_Form
  | Refresh
  | Set_Route "string list"
  | Show_Dialog string string string
  | Hide_Dialog
  | Uncaught js_error

record button =
  label :: string
  group :: "string option"
  on_click :: "form \<Rightarrow> action list"

section \<open>XML Import Configuration: aggressive import check\<close>

record attempt =
  attempt :: "int js"
  timestamp :: "string js"
  content_length :: "int js"
  order_count :: "int js"
  has_orders :: "bool js"
  import_triggered :: "bool js"
  error :: "string js"

text \<open>The script iterates over \<open>results\<close> without a guard: it is an array.\<close>

record aggressive_result =
  total_attempts :: "int js"
  results :: "attempt list"

definition attempt_status :: "attempt \<Rightarrow> frag list" where
  "attempt_status a =
     (if truthy_str (attempt.error a) then
        [Lit (cross_mark @ '' Error: ''), SubS (attempt.error a)]
      else if truthy_bool (has_orders a) then
        [Lit (party_popper @ '' ''), SubN (order_count a), Lit '' orders found!''] @
        (if truthy_bool (import_triggered a) then [Lit '' Import triggered!''] else [])
      else if js_gt (attempt.content_length a) 100 then
        [Lit (empty_mailbox @ '' Empty orders'')]
      else [Lit ''No Data''])"

definition attempt_row :: "attempt \<Rightarrow> html" where
  "attempt_row a =
     Cells [[SubN (attempt.attempt a)],
            [SubS (timestamp a)],
            [if truthy_num (attempt.content_length a)
             then SubN (attempt.content_length a) else Lit ''N/A'', Lit '' bytes''],
            [SubN (or_num (order_count a) (Val 0))],
            attempt_status a]"

definition aggressive_message :: "aggressive_result \<Rightarrow> html list" where
  "aggressive_message result =
     (let importTriggered = list_ex (\<lambda>r. truthy_bool (import_triggered r)) (results result) in
      [H4 ''Aggressive Import Check Results'',
       Para [Lit ''<strong>Total Attempts:</strong> '', SubN (total_attempts result)],
       Table_Open,
       Header_Row [''Attempt'', ''Time'', ''Content Size'', ''Orders Found'', ''Status'']] @
      map attempt_row (results result) @
      [Table_Close] @
      (if importTriggered then
         [Alert ''alert-success'' [Lit (party_popper @ '' Import was triggered!'')]
            [Para [Lit ''Orders were found and import was automatically started. Check the Import Log for results.'']]]
       else
         [Alert ''alert-info'' [Lit (empty_mailbox @ '' No orders found'')]
            [Para [Lit ''The feed was checked multiple times but no orders were detected. Try again later when new orders are placed.'']]]))"

definition aggressive_import_check_callback ::
  "form \<Rightarrow> aggressive_result response \<Rightarrow> action list" where
  "aggressive_import_check_callback frm r =
     (if \<not> truthy_str (exc r) \<and> truthy_obj (message r) then
        case message r of
          Val result \<Rightarrow>
            [Console_Log ''Aggressive Import Result:'',
             Msgprint (Some ''Aggressive Import Check Results'')
               (aggressive_message result) None True] @
            (if list_ex (\<lambda>r. truthy_bool (import_triggered r)) (results result)
             then [Reload_Doc] else [])
        | _ \<Rightarrow> []
      else [])"

section \<open>XML Import Configuration: stream analysis\<close>

record sample =
  order_id :: "string js"
  status :: "string js"
  item_count :: "int js"
  note' :: "string js"

record stream_result =
  content_length :: "int js"
  content_size_human :: "string js"
  xml_valid :: "bool js"
  root_tag :: "string js"
  element_count :: "int js"
  sample_elements :: "sample list js"
  parse_error :: "string js"
  first_100_chars :: "string js"
  first_500_chars :: "string js"
  full_xml_content :: "string js"

definition sample_line :: "sample \<Rightarrow> frag list" where
  "sample_line s =
     (if truthy_str (order_id s) then
        [Lit ''Order '', SubS (order_id s), Lit ('': Status '' @ dquote), SubS (status s),
         Lit (dquote @ '', ''), SubN (item_count s), Lit '' items<br>'']
      else [SubS (note' s), Lit ''<br>''])"

definition pre_open :: "string \<Rightarrow> frag" where
  "pre_open css = Lit (''<pre style='' @ dquote @ css @ dquote @ ''>'')"

definition no_elements_alert :: "frag \<Rightarrow> html" where
  "no_elements_alert lower =
     Alert ''alert-warning''
       [Lit (warning_sign @ '' No ''), lower, Lit '' found!'']
       [Para [Lit ''<strong>Possible issues:</strong>''],
        Ul [''The XML feed might be empty or returning no data'',
            ''Authentication might be required for the URL'',
            ''The XML structure might be different than expected'',
            ''The feed might return data only at certain times''],
        Para [Lit ''<strong>Next steps:</strong>''],
        Ul [''Check if the URL requires authentication headers'',
            ''Verify the URL works in a browser'',
            ''Contact the feed provider about data availability'']]"

text \<open>The message up to the branch on \<open>xml_valid\<close>, and from the first characters on.\<close>

definition stream_head :: "stream_result \<Rightarrow> html list" where
  "stream_head result =
     [H4 ''XML Stream Analysis'',
      Table_Open,
      Row ''Content Length:'' Plain
        [SubN (stream_result.content_length result), Lit '' bytes ('',
         SubS (content_size_human result), Lit '')''],
      Row ''XML Valid:'' Plain
        [Lit (if truthy_bool (stream_result.xml_valid result) then ''Yes'' else ''No'')]]"

definition stream_tail :: "stream_result \<Rightarrow> html list" where
  "stream_tail result =
     [Row ''First Characters:'' Plain
        [Lit ''<code>'', SubS (or_str (first_100_chars result) (first_500_chars result)),
         Lit ''</code>'']] @
     (if js_lt (stream_result.content_length result) 500 \<and> truthy_str (full_xml_content result)
      then
        [Row ''Full XML Content:'' Plain
           [pre_open ''max-height: 300px; overflow-y: auto; background: #f8f9fa; padding: 10px;'',
            SubS (full_xml_content result), Lit ''</pre>'']]
      else []) @
     [Table_Close]"

text \<open>
  The message of the dialog, or the exception that ends the callback before the dialog.
  In the branch of a valid document the template calls
  \<open>frm.doc.import_type.toLowerCase()\<close>; the second call, in the alert, is reached only
  when the first one returned.
\<close>

definition stream_message :: "document \<Rightarrow> stream_result \<Rightarrow> js_error + html list" where
  "stream_message d result =
     (if truthy_bool (stream_result.xml_valid result) then
        case toLowerCase (import_type d) of
          Inl e \<Rightarrow> Inl e
        | Inr lower \<Rightarrow>
            Inr (stream_head result @
                 [Row ''Root Element:'' Plain [SubS (stream_result.root_tag result)],
                  Row ''Elements Found:'' Plain
                    [SubN (stream_result.element_count result), Lit '' '', lower]] @
                 (if non_empty (sample_elements result) then
                    [Row ''Sample Data:'' Plain
                       (concat (map sample_line (elements (sample_elements result))))]
                  else []) @
                 stream_tail result @
                 (if stream_result.element_count result = Val 0
                  then [no_elements_alert lower] else []))
      else
        Inr (stream_head result @
             [Row ''Parse Error:'' Plain [SubS (stream_result.parse_error result)]] @
             stream_tail result))"

definition check_stream_length_callback ::
  "form \<Rightarrow> stream_result response \<Rightarrow> action list" where
  "check_stream_length_callback frm r =
     (if \<not> truthy_str (exc r) \<and> truthy_obj (response.message r) then
        case response.message r of
          Val result \<Rightarrow>
            Console_Log ''XML Stream Analysis Result:'' #
            (case stream_message (doc frm) result of
               Inr html \<Rightarrow> [Msgprint (Some ''XML Stream Analysis'') html None True]
             | Inl e \<Rightarrow> [Uncaught e])
        | _ \<Rightarrow> []
      else [])"

section \<open>XML Import Configuration: feed debug\<close>

text \<open>
  One flat object carries the outcome of the fetch: \<open>error\<close> when it failed, the
  other properties when it did not. \<open>headers\<close> is an object of strings, or is not
  there.
\<close>

record debug_result =
  url :: "string js"
  error :: "string js"
  status_code :: "int js"
  content_length :: "int js"
  content_length_stripped :: "int js"
  headers :: "(string \<rightharpoonup> string) js"
  auth_used :: "bool js"
  is_mostly_whitespace :: "bool js"
  is_likely_error :: "bool js"
  raw_content :: "string js"
  content :: "string js"
  suggested_actions :: "string list js"

text \<open>\<open>obj[key]\<close> on an object of strings: a missing key is \<open>undefined\<close>.\<close>

definition property :: "(string \<rightharpoonup> string) \<Rightarrow> string \<Rightarrow> string js" where
  "property m k = (case m k of None \<Rightarrow> Undefined | Some v \<Rightarrow> Val v)"

definition bullet_line :: "string \<Rightarrow> frag list" where
  "bullet_line item = [Lit (bullet @ '' ''), SubS (Val item), Lit ''<br>'']"

text \<open>
  The message of the dialog, or the exception that ends the callback before the dialog:
  without \<open>error\<close>, the template reads \<open>result.headers['content-type']\<close>.
\<close>

definition debug_message :: "debug_result \<Rightarrow> js_error + html list" where
  "debug_message result =
     (if truthy_str (debug_result.error result) then
        Inr ([H4 ''XML Feed Debug Information'',
              Table_Open,
              Row ''URL:'' Plain [SubS (url result)]] @
             [Row ''Error:'' Text_Danger [SubS (debug_result.error result)]] @
             [Table_Close])
      else
        case headers result of
          Val h \<Rightarrow>
            Inr ([H4 ''XML Feed Debug Information'',
                  Table_Open,
                  Row ''URL:'' Plain [SubS (url result)]] @
                 [Row ''Status Code:'' Plain [SubN (status_code result)],
                  Row ''Content Length:'' Plain
                    [SubN (debug_result.content_length result), Lit '' bytes (stripped: '',
                     SubN (content_length_stripped result), Lit '' bytes)''],
                  Row ''Content Type:'' Plain
                    [SubS (or_str (property h ''content-type'') (Val ''Not specified''))],
                  Row ''Authentication Used:'' Plain
                    [Lit (if truthy_bool (auth_used result) then ''Yes'' else ''No'')]] @
                 (if truthy_bool (is_mostly_whitespace result) then
                    [Row ''Content Analysis:'' Text_Warning
                       [Lit (warning_sign @ '' Content is mostly whitespace'')]]
                  else []) @
                 (if truthy_bool (is_likely_error result) then
                    [Row ''Content Analysis:'' Text_Danger
                       [Lit (cross_mark @ '' Content may contain error messages'')]]
                  else []) @
                 [Row ''Raw Content:'' Plain
                    [Lit ''<code>'', SubS (raw_content result), Lit ''</code>''],
                  Row ''Formatted Content:'' Plain
                    [pre_open ''max-height: 400px; overflow-y: auto; background: #f8f9fa; padding: 10px; white-space: pre-wrap;'',
                     SubS (content result), Lit ''</pre>'']] @
                 (if non_empty (suggested_actions result) then
                    [Row ''Suggestions:'' Plain
                       (concat (map bullet_line (elements (suggested_actions result))))]
                  else []) @
                 [Table_Close])
        | _ \<Rightarrow> Inl TypeError)"

text \<open>The two rows of the content analysis, by name.\<close>

definition whitespace_row :: html where
  "whitespace_row =
     Row ''Content Analysis:'' Text_Warning [Lit (warning_sign @ '' Content is mostly whitespace'')]"

definition error_page_row :: html where
  "error_page_row =
     Row ''Content Analysis:'' Text_Danger [Lit (cross_mark @ '' Content may contain error messages'')]"

definition debug_xml_feed_callback ::
  "form \<Rightarrow> debug_result response \<Rightarrow> action list" where
  "debug_xml_feed_callback frm r =
     (if \<not> truthy_str (exc r) \<and> truthy_obj (response.message r) then
        case response.message r of
          Val result \<Rightarrow>
            Console_Log ''Debug XML Feed Result:'' #
            (case debug_message result of
               Inr html \<Rightarrow> [Msgprint (Some ''XML Feed Debug'') html None True]
             | Inl e \<Rightarrow> [Uncaught e])
        | _ \<Rightarrow> []
      else [])"

section \<open>XML Import Configuration: import from pasted content\<close>

record debug_info =
  root_tag :: "string js"
  direct_children :: "string list js"
  total_children :: "int js"
  all_unique_tags :: "string list js"

record pasted_result =
  content_length :: "int js"
  xml_valid :: "bool js"
  root_tag :: "string js"
  element_count :: "int js"
  import_status :: "string js"
  processed_items :: "string list js"
  errors :: "string list js"
  debug_info :: "debug_info js"
  parse_error :: "string js"

definition structure_dump :: "debug_info \<Rightarrow> frag list" where
  "structure_dump di =
     [Lit ''<strong>Root:</strong> '', SubS (debug_info.root_tag di), Lit ''<br>''] @
     (if non_empty (direct_children di) then
        [Lit ''<strong>Direct Children:</strong> '',
         SubS (Val (join '', '' (elements (direct_children di)))), Lit ''<br>'']
      else []) @
     [Lit ''<strong>Total Children:</strong> '', SubN (total_children di), Lit ''<br>''] @
     (if non_empty (all_unique_tags di) then
        [Lit ''<strong>All Tags Found:</strong> '',
         SubS (Val (join '', '' (elements (all_unique_tags di)))), Lit ''<br>'']
      else [])"

definition pasted_head :: "document \<Rightarrow> pasted_result \<Rightarrow> html list" where
  "pasted_head d result =
     [H4 ''Pasted XML Import Results'',
      Table_Open,
      Row ''Import Type:'' Plain [SubS (import_type d)],
      Row ''Content Length:'' Plain [SubN (pasted_result.content_length result), Lit '' bytes''],
      Row ''XML Valid:'' Plain
        [Lit (if truthy_bool (pasted_result.xml_valid result)
              then check_mark @ '' Yes'' else cross_mark @ '' No'')]]"

text \<open>
  The message of the dialog, or the exception that ends the callback before the dialog
  and before \<open>frm.reload_doc()\<close>: in the branch of a valid document the template calls
  \<open>frm.doc.import_type.toLowerCase()\<close>.
\<close>

definition pasted_message :: "document \<Rightarrow> pasted_result \<Rightarrow> js_error + html list" where
  "pasted_message d result =
     (if truthy_bool (pasted_result.xml_valid result) then
        case toLowerCase (import_type d) of
          Inl e \<Rightarrow> Inl e
        | Inr lower \<Rightarrow>
            Inr (pasted_head d result @
                 [Row ''Root Element:'' Plain [SubS (pasted_result.root_tag result)],
                  Row ''Elements Found:'' Plain
                    [SubN (pasted_result.element_count result), Lit '' '', lower],
                  Row ''Import Status:'' Plain [SubS (import_status result)]] @
                 (if non_empty (processed_items result) then
                    [Row ''Processed Items:'' Plain
                       (concat (map bullet_line (elements (processed_items result))))]
                  else []) @
                 (if non_empty (errors result) then
                    [Row ''Errors:'' Text_Danger
                       (concat (map bullet_line (elements (errors result))))]
                  else []) @
                 (case debug_info result of
                    Val di \<Rightarrow> [Row ''XML Structure:'' Plain (structure_dump di)]
                  | _ \<Rightarrow> []) @
                 [Table_Close])
      else
        Inr (pasted_head d result @
             [Row ''Parse Error:'' Text_Danger [SubS (pasted_result.parse_error result)]] @
             [Table_Close]))"

definition import_from_pasted_content_callback ::
  "form \<Rightarrow> pasted_result response \<Rightarrow> action list" where
  "import_from_pasted_content_callback frm r =
     (if \<not> truthy_str (exc r) \<and> truthy_obj (response.message r) then
        case response.message r of
          Val result \<Rightarrow>
            Console_Log ''Pasted XML Import Result:'' #
            (case pasted_message (doc frm) result of
               Inr html \<Rightarrow>
                 [Msgprint (Some ''Pasted XML Import Results'') html None True] @
                 (if import_status result = Val ''Success'' then [Reload_Doc] else [])
             | Inl e \<Rightarrow> [Uncaught e])
        | _ \<Rightarrow> []
      else [])"

text \<open>The values of the dialog, and its primary action (the \<open>Import XML\<close> button).\<close>

record dialog_values =
  xml_content :: "string js"

definition pasted_primary_action :: "form \<Rightarrow> dialog_values \<Rightarrow> action list" where
  "pasted_primary_action frm values =
     (if truthy_str (xml_content values) then
        [Call ''import_from_pasted_content'' (doc frm)
           [(''xml_content'', xml_content values)] Cb_import_from_pasted_content None,
         Hide_Dialog]
      else [])"

section \<open>XML Import Configuration: buttons\<close>

definition trigger_manual_import_callback :: "form \<Rightarrow> 'm response \<Rightarrow> action list" where
  "trigger_manual_import_callback frm r =
     (if \<not> truthy_str (exc r) then
        [Msgprint None [Text [Lit ''Manual import has been triggered successfully.'']] None False,
         Reload_Doc]
      else [])"

definition trigger_manual_import_click :: "form \<Rightarrow> action list" where
  "trigger_manual_import_click frm =
     [Confirm
        [Lit ''Are you sure you want to trigger a manual import for '',
         SubS (Val (name (doc frm))), Lit ''?'']
        [Call ''trigger_manual_import'' (doc frm) [] Cb_trigger_manual_import None]]"

definition check_stream_length_click :: "form \<Rightarrow> action list" where
  "check_stream_length_click frm =
     [Call ''check_stream_length'' (doc frm) [] Cb_check_stream_length None]"

definition debug_xml_feed_click :: "form \<Rightarrow> action list" where
  "debug_xml_feed_click frm =
     [Call ''debug_xml_feed'' (doc frm) [] Cb_debug_xml_feed None]"

definition aggressive_confirm_text :: "frag list" where
  "aggressive_confirm_text =
     [Lit ''This will check the feed 5 times (50 seconds total) and import immediately if orders are found. Continue?'']"

definition aggressive_import_check_click :: "form \<Rightarrow> action list" where
  "aggressive_import_check_click frm =
     [Confirm aggressive_confirm_text
        [Call ''aggressive_import_check'' (doc frm) [] Cb_aggressive_import_check None]]"

definition pasted_xml_click :: "form \<Rightarrow> action list" where
  "pasted_xml_click frm =
     [Show_Dialog ''Import from Pasted XML Content'' ''xml_content'' ''Import XML'']"

text \<open>The \<open>refresh\<close> handler of the form: the buttons it adds, in order.\<close>

definition config_refresh :: "form \<Rightarrow> button list" where
  "config_refresh frm =
     (if truthy_num (enabled (doc frm)) \<and> truthy_str (xml_feed_url (doc frm)) \<and> \<not> is_new frm
      then [\<lparr>label = play_sign @ '' Trigger Manual Import'', group = Some ''Actions'',
              on_click = trigger_manual_import_click\<rparr>]
      else []) @
     (if truthy_str (xml_feed_url (doc frm)) \<and> \<not> is_new frm
      then [\<lparr>label = magnifier @ '' Check Stream Length'', group = None,
              on_click = check_stream_length_click\<rparr>]
      else []) @
     (if truthy_str (xml_feed_url (doc frm)) \<and> \<not> is_new frm
      then [\<lparr>label = bug_sign @ '' Debug XML Feed'', group = None,
              on_click = debug_xml_feed_click\<rparr>]
      else []) @
     (if truthy_str (xml_feed_url (doc frm)) \<and> \<not> is_new frm
      then [\<lparr>label = direct_hit @ '' Aggressive Import Check'', group = None,
              on_click = aggressive_import_check_click\<rparr>]
      else []) @
     (if \<not> is_new frm
      then [\<lparr>label = clipboard @ '' Debug Import from Pasted XML'', group = Some ''Debug'',
              on_click = pasted_xml_click\<rparr>]
      else [])"

section \<open>XML Import Configuration: the script with the import button alone\<close>

definition config_refresh_basic :: "form \<Rightarrow> button list" where
  "config_refresh_basic frm =
     (if truthy_num (enabled (doc frm)) \<and> truthy_str (xml_feed_url (doc frm)) \<and> \<not> is_new frm
      then [\<lparr>label = ''Trigger Manual Import'', group = Some ''Actions'',
              on_click = trigger_manual_import_click\<rparr>]
      else [])"

section \<open>XML Import Settings\<close>

record outcome =
  success :: "bool js"
  message :: "string js"

record transport_error =
  message :: "string js"

text \<open>\<open>r.message && r.message.success\<close>\<close>

definition succeeded :: "outcome response \<Rightarrow> bool" where
  "succeeded r =
     (case response.message r of Val m \<Rightarrow> truthy_bool (success m) | _ \<Rightarrow> False)"

text \<open>\<open>r.message ? r.message.message : fallback\<close>\<close>

definition message_or :: "outcome response \<Rightarrow> string \<Rightarrow> frag" where
  "message_or r fallback =
     (case response.message r of Val m \<Rightarrow> SubS (outcome.message m) | _ \<Rightarrow> Lit fallback)"

definition test_connection_callback :: "form \<Rightarrow> outcome response \<Rightarrow> action list" where
  "test_connection_callback frm r =
     (if succeeded r then
        (case response.message r of
           Val m \<Rightarrow>
             [Show_Alert [SubS (outcome.message m)] ''green'',
              Msgprint (Some ''Connection Test Successful'') [Text [SubS (outcome.message m)]]
                (Some ''green'') False]
         | _ \<Rightarrow> [])
      else
        [Show_Alert [message_or r ''Connection test failed''] ''red'',
         Msgprint (Some ''Connection Test Failed'')
           [Text [message_or r ''Connection test failed'']] (Some ''red'') False])"

definition test_connection_error :: "form \<Rightarrow> transport_error \<Rightarrow> action list" where
  "test_connection_error frm err = [Show_Alert [Lit ''Connection test failed''] ''red'']"

text \<open>
  How a call of \<open>frappe.call\<close> ends: with a response, handed to \<open>callback\<close>, or with
  a failure of the request, handed to \<open>error\<close>.
\<close>

datatype completion = Responded "outcome response" | Request_Failed transport_error

definition test_connection_completed :: "form \<Rightarrow> completion \<Rightarrow> action list" where
  "test_connection_completed frm c =
     (case c of
        Responded r \<Rightarrow> test_connection_callback frm r
      | Request_Failed err \<Rightarrow> test_connection_error frm err)"

definition test_xml_connection :: "form \<Rightarrow> action list" where
  "test_xml_connection frm =
     (if \<not> truthy_str (xml_feed_url (doc frm)) then
        [Msgprint None [Text [Lit ''Please enter XML Feed URL first'']] None False]
      else
        [Show_Alert [Lit ''Testing connection...''] ''blue'',
         Call ''test_connection'' (doc frm) [] Cb_test_connection (Some Err_test_connection)])"

definition settings_import_callback :: "form \<Rightarrow> outcome response \<Rightarrow> action list" where
  "settings_import_callback frm r =
     [Enable_Form] @
     (if succeeded r then
        (case response.message r of
           Val m \<Rightarrow>
             [Show_Alert [Lit ''Import completed successfully''] ''green'',
              Msgprint (Some ''Import Successful'') [Text [SubS (outcome.message m)]]
                (Some ''green'') False,
              Reload_Doc]
         | _ \<Rightarrow> [])
      else
        [Show_Alert [Lit ''Import failed''] ''red'',
         Msgprint (Some ''Import Failed'') [Text [message_or r ''Import failed'']]
           (Some ''red'') False])"

definition settings_import_error :: "form \<Rightarrow> transport_error \<Rightarrow> action list" where
  "settings_import_error frm err =
     [Enable_Form,
      Show_Alert [Lit ''Import failed''] ''red'',
      Msgprint (Some ''Import Error'')
        [Text [SubS (or_str (transport_error.message err) (Val ''Import failed with error''))]]
        (Some ''red'') False]"

definition trigger_manual_import :: "form \<Rightarrow> action list" where
  "trigger_manual_import frm =
     [Confirm
        [Lit ''Are you sure you want to trigger a manual import?<br><br>This may take some time depending on the feed size.'']
        [Show_Alert [Lit ''Starting import...''] ''blue'',
         Disable_Form,
         Call ''trigger_manual_import'' (doc frm) [] Cb_settings_manual_import
           (Some Err_settings_manual_import)]]"

definition view_import_logs :: "form \<Rightarrow> action list" where
  "view_import_logs frm = [Set_Route [''List'', ''XML Import Log'']]"

definition settings_refresh :: "form \<Rightarrow> button list" where
  "settings_refresh frm =
     [\<lparr>label = ''Test Connection'', group = Some ''Actions'', on_click = test_xml_connection\<rparr>] @
     (if truthy_num (enabled (doc frm)) \<and> truthy_str (xml_feed_url (doc frm))
      then [\<lparr>label = ''Manual Import'', group = Some ''Actions'',
              on_click = trigger_manual_import\<rparr>]
      else []) @
     [\<lparr>label = ''View Import Logs'', group = Some ''Actions'', on_click = view_import_logs\<rparr>]"

text \<open>The field handlers \<open>enabled\<close> and \<open>xml_feed_url\<close>: both refresh the form.\<close>

definition settings_enabled :: "form \<Rightarrow> action list" where
  "settings_enabled frm = [Refresh]"

definition settings_xml_feed_url :: "form \<Rightarrow> action list" where
  "settings_xml_feed_url frm = [Refresh]"

section \<open>What a script does\<close>

text \<open>
  The methods a handler passes to \<open>frappe.call\<close>, those behind a confirmation included.
\<close>

fun methods :: "action list \<Rightarrow> string list" where
  "methods [] = []"
| "methods (Call m d args cb err # rest) = m # methods rest"
| "methods (Confirm t k # rest) = methods k @ methods rest"
| "methods (a # rest) = methods rest"

text \<open>
  What a handler performs: \<open>frappe.confirm\<close> shows its dialog and returns; its
  continuation runs afterwards, and only if the operator confirmed.
\<close>

fun performed :: "bool \<Rightarrow> action list \<Rightarrow> action list" where
  "performed confirmed [] = []"
| "performed confirmed (Confirm t k # rest) =
     Confirm t [] # performed confirmed rest @ (if confirmed then performed confirmed k else [])"
| "performed confirmed (a # rest) = a # performed confirmed rest"

text \<open>Every call of a handler, with the texts of the confirmations it is behind.\<close>

fun calls_behind :: "frag list list \<Rightarrow> action list \<Rightarrow> (frag list list \<times> string) list" where
  "calls_behind ts [] = []"
| "calls_behind ts (Call m d args cb err # rest) = (ts, m) # calls_behind ts rest"
| "calls_behind ts (Confirm t k # rest) = calls_behind (ts @ [t]) k @ calls_behind ts rest"
| "calls_behind ts (a # rest) = calls_behind ts rest"

text \<open>The dialogs of \<open>frappe.msgprint\<close>: their titles, and the markup they show.\<close>

fun dialog_titles :: "action list \<Rightarrow> string option list" where
  "dialog_titles [] = []"
| "dialog_titles (Msgprint t m i w # rest) = t # dialog_titles rest"
| "dialog_titles (a # rest) = dialog_titles rest"

fun shown :: "action list \<Rightarrow> html list" where
  "shown [] = []"
| "shown (Msgprint t m i w # rest) = m @ shown rest"
| "shown (a # rest) = shown rest"

fun row_labels :: "html list \<Rightarrow> string list" where
  "row_labels [] = []"
| "row_labels (Row l st c # rest) = l # row_labels rest"
| "row_labels (h # rest) = row_labels rest"

definition labels :: "button list \<Rightarrow> string list" where
  "labels bs = map label bs"

text \<open>
  The action lists a script can produce: a click on a button that \<open>refresh\<close> added
  (the document may have changed since), a callback on a response, the primary action of
  the dialog, a field handler.
\<close>

definition config_script :: "action list set" where
  "config_script =
     {on_click b frm' | b frm frm'. b \<in> set (config_refresh frm)} \<union>
     range (\<lambda>(frm, r :: unit response). trigger_manual_import_callback frm r) \<union>
     range (\<lambda>(frm, r). check_stream_length_callback frm r) \<union>
     range (\<lambda>(frm, r). debug_xml_feed_callback frm r) \<union>
     range (\<lambda>(frm, r). aggressive_import_check_callback frm r) \<union>
     range (\<lambda>(frm, r). import_from_pasted_content_callback frm r) \<union>
     range (\<lambda>(frm, v). pasted_primary_action frm v)"

definition config_basic_script :: "action list set" where
  "config_basic_script =
     {on_click b frm' | b frm frm'. b \<in> set (config_refresh_basic frm)} \<union>
     range (\<lambda>(frm, r :: unit response). trigger_manual_import_callback frm r)"

definition settings_script :: "action list set" where
  "settings_script =
     {on_click b frm' | b frm frm'. b \<in> set (settings_refresh frm)} \<union>
     range (\<lambda>(frm, r). test_connection_callback frm r) \<union>
     range (\<lambda>(frm, e). test_connection_error frm e) \<union>
     range (\<lambda>(frm, r). settings_import_callback frm r) \<union>
     range (\<lambda>(frm, e). settings_import_error frm e) \<union>
     range settings_enabled \<union>
     range settings_xml_feed_url"

definition dispatched :: "action list set \<Rightarrow> string set" where
  "dispatched S = {m. \<exists>acts \<in> S. m \<in> set (methods acts)}"

section \<open>Sample documents and responses\<close>

definition saved_form :: form where
  "saved_form = \<lparr>doc = \<lparr>name = ''CFG-0001'', enabled = Val 1,
       xml_feed_url = Val ''https://shop.example/orders.xml'', import_type = Val ''Orders''\<rparr>,
     is_new = False\<rparr>"

definition triggered_attempt :: attempt where
  "triggered_attempt = \<lparr>attempt.attempt = Val 2, timestamp = Val ''12:00:10'',
     attempt.content_length = Val 2048, order_count = Val 3, has_orders = Val True,
     import_triggered = Val True, attempt.error = Undefined\<rparr>"

definition empty_attempt :: attempt where
  "empty_attempt = \<lparr>attempt.attempt = Val 1, timestamp = Val ''12:00:00'',
     attempt.content_length = Val 150, order_count = Val 0, has_orders = Val False,
     import_triggered = Undefined, attempt.error = Undefined\<rparr>"

definition aggressive_outcome :: aggressive_result where
  "aggressive_outcome = \<lparr>total_attempts = Val 2, results = [empty_attempt, triggered_attempt]\<rparr>"

definition aggressive_response :: "aggressive_result response" where
  "aggressive_response = \<lparr>exc = Undefined, response.message = Val aggressive_outcome\<rparr>"

definition valid_stream :: stream_result where
  "valid_stream = \<lparr>stream_result.content_length = Val 2048, content_size_human = Val ''2.0 KB'',
     stream_result.xml_valid = Val True, stream_result.root_tag = Val ''orders'',
     stream_result.element_count = Val 3, sample_elements = Undefined,
     stream_result.parse_error = Undefined, first_100_chars = Val ''<orders>'',
     first_500_chars = Undefined, full_xml_content = Undefined\<rparr>"

definition broken_stream :: stream_result where
  "broken_stream = \<lparr>stream_result.content_length = Val 17, content_size_human = Val ''17 B'',
     stream_result.xml_valid = Val False, stream_result.root_tag = Undefined,
     stream_result.element_count = Undefined, sample_elements = Undefined,
     stream_result.parse_error = Val ''no element found: line 1, column 0'',
     first_100_chars = Undefined, first_500_chars = Val ''Service unavailable'',
     full_xml_content = Undefined\<rparr>"

definition failed_debug :: debug_result where
  "failed_debug = \<lparr>url = Val ''https://shop.example/orders.xml'',
     debug_result.error = Val ''Connection timed out'', status_code = Undefined,
     debug_result.content_length = Undefined, content_length_stripped = Undefined,
     headers = Undefined, auth_used = Undefined, is_mostly_whitespace = Val True,
     is_likely_error = Val True, raw_content = Undefined, content = Undefined,
     suggested_actions = Undefined\<rparr>"

definition blank_debug :: debug_result where
  "blank_debug = \<lparr>url = Val ''https://shop.example/orders.xml'',
     debug_result.error = Undefined, status_code = Val 200,
     debug_result.content_length = Val 40, content_length_stripped = Val 0,
     headers = Val [''content-type'' \<mapsto> ''text/xml''], auth_used = Val False,
     is_mostly_whitespace = Val True, is_likely_error = Val False,
     raw_content = Val '' '', content = Val '' '',
     suggested_actions = Val [''Check the feed URL'', ''Check authentication'']\<rparr>"

definition pasted_structure :: debug_info where
  "pasted_structure = \<lparr>debug_info.root_tag = Val ''orders'',
     direct_children = Val [''order'', ''meta''], total_children = Val 2,
     all_unique_tags = Val [''orders'', ''order'', ''meta'']\<rparr>"

definition imported_paste :: pasted_result where
  "imported_paste = \<lparr>pasted_result.content_length = Val 120, pasted_result.xml_valid = Val True,
     pasted_result.root_tag = Val ''orders'', pasted_result.element_count = Val 1,
     import_status = Val ''Success'', processed_items = Val [''Order 1001 created''],
     errors = Val [''Order 1002: missing customer''], debug_info = Val pasted_structure,
     pasted_result.parse_error = Undefined\<rparr>"

definition broken_paste :: pasted_result where
  "broken_paste = \<lparr>pasted_result.content_length = Val 5, pasted_result.xml_valid = Val False,
     pasted_result.root_tag = Undefined, pasted_result.element_count = Undefined,
     import_status = Undefined, processed_items = Undefined, errors = Undefined,
     debug_info = Undefined, pasted_result.parse_error = Val ''syntax error: line 1, column 0''\<rparr>"

definition ok_response :: "'m \<Rightarrow> 'm response" where
  "ok_response m = \<lparr>exc = Undefined, response.message = Val m\<rparr>"

definition blank_url_form :: form where
  "blank_url_form = \<lparr>doc = \<lparr>name = ''XML Import Settings'', enabled = Val 0,
       xml_feed_url = Val [], import_type = Val ''Items''\<rparr>, is_new = False\<rparr>"

definition new_form :: form where
  "new_form = \<lparr>doc = \<lparr>name = ''new-xml-import-configuration-1'', enabled = Val 1,
       xml_feed_url = Val ''https://shop.example/orders.xml'', import_type = Val ''Orders''\<rparr>,
     is_new = True\<rparr>"

definition disabled_form :: form where
  "disabled_form = \<lparr>doc = \<lparr>name = ''CFG-0002'', enabled = Val 0,
       xml_feed_url = Val ''https://shop.example/items.xml'', import_type = Val ''Items''\<rparr>,
     is_new = False\<rparr>"

definition no_url_form :: form where
  "no_url_form = \<lparr>doc = \<lparr>name = ''CFG-0003'', enabled = Val 1,
       xml_feed_url = Undefined, import_type = Val ''Items''\<rparr>,
     is_new = False\<rparr>"

definition untyped_form :: form where
  "untyped_form = \<lparr>doc = \<lparr>name = ''CFG-0004'', enabled = Val 1,
       xml_feed_url = Val ''https://shop.example/orders.xml'', import_type = Undefined\<rparr>,
     is_new = False\<rparr>"

definition headless_debug :: debug_result where
  "headless_debug = \<lparr>url = Val ''https://shop.example/orders.xml'',
     debug_result.error = Undefined, status_code = Val 200,
     debug_result.content_length = Val 40, content_length_stripped = Val 0,
     headers = Undefined, auth_used = Val False,
     is_mostly_whitespace = Val True, is_likely_error = Val False,
     raw_content = Val '' '', content = Val '' '', suggested_actions = Undefined\<rparr>"

definition failed_test :: "outcome response" where
  "failed_test = \<lparr>exc = Undefined,
     response.message = Val \<lparr>success = Val False, outcome.message = Val ''HTTP 404''\<rparr>\<rparr>"

definition empty_response :: "outcome response" where
  "empty_response = \<lparr>exc = Undefined, response.message = Undefined\<rparr>"

definition timeout_error :: transport_error where
  "timeout_error = \<lparr>transport_error.message = Val ''timeout''\<rparr>"

section \<open>Facts shared by the proofs\<close>

lemmas sign_defs = bullet_def play_sign_def warning_sign_def check_mark_def cross_mark_def
  party_popper_def direct_hit_def bug_sign_def clipboard_def empty_mailbox_def magnifier_def

lemma row_labels_append: "row_labels (xs @ ys) = row_labels xs @ row_labels ys"
  by (induction xs rule: row_labels.induct) simp_all

section \<open>C1: the status of an attempt\<close>

lemma shown_aggressive:
  "\<not> truthy_str (exc r) \<Longrightarrow> response.message r = Val result \<Longrightarrow>
   shown (aggressive_import_check_callback frm r) = aggressive_message result"
  by (simp add: aggressive_import_check_callback_def)

lemma js_gt_iff: "js_gt x k \<longleftrightarrow> (\<exists>n. x = Val n \<and> k < n) \<or> (x = Null \<and> k < 0)"
  by (cases x) (simp_all add: js_gt_def)

text \<open>
  Claim C1. For every attempt of the result list of the aggressive import check, the
  message shows the row of the attempt, and the status in its last cell follows this
  precedence: if \<open>error\<close> is set, the status is the error text with the error in it;
  otherwise, if \<open>has_orders\<close> is set, the status reports \<open>order_count\<close> and holds
  \<open>Import triggered!\<close> exactly when \<open>import_triggered\<close> is set; otherwise, if
  \<open>content_length\<close> is greater than 100, the status is \<open>Empty orders\<close>; otherwise
  it is \<open>No Data\<close>.
\<close>

theorem attempt_status_precedence:
  assumes "\<not> truthy_str (exc r)" and "response.message r = Val result"
    and "a \<in> set (results result)"
  shows "attempt_row a \<in> set (shown (aggressive_import_check_callback frm r)) \<and>
    (\<exists>cells. attempt_row a = Cells (cells @ [attempt_status a])) \<and>
    (truthy_str (attempt.error a) \<longrightarrow>
       attempt_status a = [Lit (cross_mark @ '' Error: ''), SubS (attempt.error a)]) \<and>
    (\<not> truthy_str (attempt.error a) \<and> truthy_bool (has_orders a) \<longrightarrow>
       (\<exists>rest. attempt_status a =
          [Lit (party_popper @ '' ''), SubN (order_count a), Lit '' orders found!''] @ rest) \<and>
       (Lit '' Import triggered!'' \<in> set (attempt_status a) \<longleftrightarrow>
          truthy_bool (import_triggered a))) \<and>
    (\<not> truthy_str (attempt.error a) \<and> \<not> truthy_bool (has_orders a) \<and>
       (\<exists>n. attempt.content_length a = Val n \<and> 100 < n) \<longrightarrow>
       attempt_status a = [Lit (empty_mailbox @ '' Empty orders'')]) \<and>
    (\<not> truthy_str (attempt.error a) \<and> \<not> truthy_bool (has_orders a) \<and>
       \<not> (\<exists>n. attempt.content_length a = Val n \<and> 100 < n) \<longrightarrow>
       attempt_status a = [Lit ''No Data''])"
proof -
  have row: "attempt_row a \<in> set (aggressive_message result)"
    using assms(3) by (simp add: aggressive_message_def Let_def)
  have cells: "\<exists>cells. attempt_row a = Cells (cells @ [attempt_status a])"
    unfolding attempt_row_def by (metis append_Cons append_Nil)
  have gt: "js_gt (attempt.content_length a) 100 \<longleftrightarrow>
      (\<exists>n. attempt.content_length a = Val n \<and> 100 < n)"
    by (simp add: js_gt_iff)
  show ?thesis
    using row cells gt assms(1,2)
    by (simp add: shown_aggressive attempt_status_def sign_defs)
qed

text \<open>Two attempts of one response: one that triggered the import, one with no orders.\<close>

theorem attempt_status_precedence_witness:
  "attempt_row triggered_attempt \<in>
     set (shown (aggressive_import_check_callback saved_form aggressive_response)) \<and>
   attempt_status triggered_attempt =
     [Lit (party_popper @ '' ''), SubN (Val 3), Lit '' orders found!'', Lit '' Import triggered!''] \<and>
   attempt_status empty_attempt = [Lit (empty_mailbox @ '' Empty orders'')]"
proof -
  have exc: "\<not> truthy_str (exc aggressive_response)"
    and msg: "response.message aggressive_response = Val aggressive_outcome"
    by (simp_all add: aggressive_response_def)
  have mem: "triggered_attempt \<in> set (results aggressive_outcome)"
    "empty_attempt \<in> set (results aggressive_outcome)"
    by (simp_all add: aggressive_outcome_def)
  have flags: "\<not> truthy_str (attempt.error triggered_attempt)"
    "truthy_bool (has_orders triggered_attempt)"
    "truthy_bool (import_triggered triggered_attempt)"
    "order_count triggered_attempt = Val 3"
    "\<not> truthy_str (attempt.error empty_attempt)"
    "\<not> truthy_bool (has_orders empty_attempt)"
    "attempt.content_length empty_attempt = Val 150"
    by (simp_all add: triggered_attempt_def empty_attempt_def)
  have "Lit '' Import triggered!'' \<in> set (attempt_status triggered_attempt)"
    using attempt_status_precedence [OF exc msg mem(1), of saved_form] flags by simp
  then have full: "attempt_status triggered_attempt =
     [Lit (party_popper @ '' ''), SubN (Val 3), Lit '' orders found!'', Lit '' Import triggered!'']"
    using flags by (simp add: attempt_status_def)
  show ?thesis
    using attempt_status_precedence [OF exc msg mem(1), of saved_form]
      attempt_status_precedence [OF exc msg mem(2), of saved_form] flags full
    by simp
qed

section \<open>C2: the stream analysis\<close>

lemma shown_stream:
  "\<not> truthy_str (exc r) \<Longrightarrow> response.message r = Val result \<Longrightarrow>
   shown (check_stream_length_callback frm r) =
     (case stream_message (doc frm) result of Inr html \<Rightarrow> html | Inl e \<Rightarrow> [])"
  by (simp add: check_stream_length_callback_def split: sum.splits)

text \<open>
  What the message shows when the callback reaches the dialog: on a result that is not
  valid XML, and on a valid one when \<open>import_type\<close> of the document is a string.
\<close>

lemma stream_analysis_invalid:
  assumes "\<not> truthy_str (exc r)" and "response.message r = Val result"
    and "\<not> truthy_bool (stream_result.xml_valid result)"
  shows "Row ''Content Length:'' Plain
        [SubN (stream_result.content_length result), Lit '' bytes ('',
         SubS (content_size_human result), Lit '')'']
      \<in> set (shown (check_stream_length_callback frm r)) \<and>
    Row ''First Characters:'' Plain
        [Lit ''<code>'', SubS (or_str (first_100_chars result) (first_500_chars result)),
         Lit ''</code>'']
      \<in> set (shown (check_stream_length_callback frm r)) \<and>
    Row ''Parse Error:'' Plain [SubS (stream_result.parse_error result)]
      \<in> set (shown (check_stream_length_callback frm r)) \<and>
    ''Root Element:'' \<notin> set (row_labels (shown (check_stream_length_callback frm r))) \<and>
    ''Elements Found:'' \<notin> set (row_labels (shown (check_stream_length_callback frm r)))"
  unfolding shown_stream [OF assms(1,2)]
  using assms(3)
  by (simp add: stream_message_def stream_head_def stream_tail_def row_labels_append)

lemma stream_analysis_valid:
  assumes "\<not> truthy_str (exc r)" and "response.message r = Val result"
    and "truthy_bool (stream_result.xml_valid result)"
    and "import_type (doc frm) = Val t"
  shows "Row ''Content Length:'' Plain
        [SubN (stream_result.content_length result), Lit '' bytes ('',
         SubS (content_size_human result), Lit '')'']
      \<in> set (shown (check_stream_length_callback frm r)) \<and>
    Row ''First Characters:'' Plain
        [Lit ''<code>'', SubS (or_str (first_100_chars result) (first_500_chars result)),
         Lit ''</code>'']
      \<in> set (shown (check_stream_length_callback frm r)) \<and>
    Row ''Root Element:'' Plain [SubS (stream_result.root_tag result)]
      \<in> set (shown (check_stream_length_callback frm r)) \<and>
    Row ''Elements Found:'' Plain
        [SubN (stream_result.element_count result), Lit '' '', SubLower t]
      \<in> set (shown (check_stream_length_callback frm r)) \<and>
    ''Parse Error:'' \<notin> set (row_labels (shown (check_stream_length_callback frm r)))"
  unfolding shown_stream [OF assms(1,2)]
  using assms(3,4)
  by (simp add: stream_message_def stream_head_def stream_tail_def toLowerCase_def
      row_labels_append no_elements_alert_def)

text \<open>
  Claim C2 says that for every result of \<open>check_stream_length\<close> the message shows the
  content length with the human-readable size and the first characters, and, when
  \<open>xml_valid\<close> holds, the root tag and the element count. The script does not do so on a
  valid result when \<open>import_type\<close> of the document is unset:
  \<open>frm.doc.import_type.toLowerCase()\<close> throws while the message is built, the callback
  ends there, and no dialog is shown at all.
\<close>

theorem stream_analysis_type_error:
  "truthy_bool (stream_result.xml_valid valid_stream) \<and>
   check_stream_length_callback untyped_form (ok_response valid_stream) =
     [Console_Log ''XML Stream Analysis Result:'', Uncaught TypeError] \<and>
   shown (check_stream_length_callback untyped_form (ok_response valid_stream)) = []"
  by (simp add: check_stream_length_callback_def stream_message_def toLowerCase_def
      untyped_form_def ok_response_def valid_stream_def)

section \<open>C3: the import from pasted content\<close>

lemma bullet_line_mem: "x \<in> set xs \<Longrightarrow> SubS (Val x) \<in> set (concat (map bullet_line xs))"
  by (induction xs) (auto simp add: bullet_line_def)

lemma join_contains: "x \<in> set xs \<Longrightarrow> \<exists>pre post. join sep xs = pre @ x @ post"
proof (induction sep xs rule: join.induct)
  case (1 sep)
  then show ?case by simp
next
  case (2 sep y)
  then have "join sep [y] = [] @ x @ []" by simp
  then show ?case by blast
next
  case (3 sep y z zs)
  show ?case
  proof (cases "x = y")
    case True
    then have "join sep (y # z # zs) = [] @ x @ (sep @ join sep (z # zs))" by simp
    then show ?thesis by blast
  next
    case False
    with 3 obtain pre post where "join sep (z # zs) = pre @ x @ post" by auto
    then have "join sep (y # z # zs) = (y @ sep @ pre) @ x @ post" by simp
    then show ?thesis by blast
  qed
qed

lemma structure_dump_parts:
  "SubS (debug_info.root_tag di) \<in> set (structure_dump di) \<and>
   SubN (total_children di) \<in> set (structure_dump di) \<and>
   (non_empty (direct_children di) \<longrightarrow>
      SubS (Val (join '', '' (elements (direct_children di)))) \<in> set (structure_dump di)) \<and>
   (non_empty (all_unique_tags di) \<longrightarrow>
      SubS (Val (join '', '' (elements (all_unique_tags di)))) \<in> set (structure_dump di))"
  by (simp add: structure_dump_def)

lemma shown_pasted:
  "\<not> truthy_str (exc r) \<Longrightarrow> response.message r = Val result \<Longrightarrow>
   shown (import_from_pasted_content_callback frm r) =
     (case pasted_message (doc frm) result of Inr html \<Rightarrow> html | Inl e \<Rightarrow> [])"
  by (simp add: import_from_pasted_content_callback_def split: sum.splits)

lemma pasted_message_valid:
  "truthy_bool (pasted_result.xml_valid result) \<Longrightarrow> import_type d = Val t \<Longrightarrow>
   pasted_message d result =
     Inr ([H4 ''Pasted XML Import Results'',
           Table_Open,
           Row ''Import Type:'' Plain [SubS (Val t)],
           Row ''Content Length:'' Plain
             [SubN (pasted_result.content_length result), Lit '' bytes''],
           Row ''XML Valid:'' Plain [Lit (check_mark @ '' Yes'')],
           Row ''Root Element:'' Plain [SubS (pasted_result.root_tag result)],
           Row ''Elements Found:'' Plain
             [SubN (pasted_result.element_count result), Lit '' '', SubLower t],
           Row ''Import Status:'' Plain [SubS (import_status result)]] @
          (if non_empty (processed_items result) then
             [Row ''Processed Items:'' Plain
                (concat (map bullet_line (elements (processed_items result))))]
           else []) @
          (if non_empty (errors result) then
             [Row ''Errors:'' Text_Danger (concat (map bullet_line (elements (errors result))))]
           else []) @
          (case debug_info result of
             Val di \<Rightarrow> [Row ''XML Structure:'' Plain (structure_dump di)]
           | _ \<Rightarrow> []) @
          [Table_Close])"
  by (simp add: pasted_message_def pasted_head_def toLowerCase_def)

lemma pasted_message_invalid:
  "\<not> truthy_bool (pasted_result.xml_valid result) \<Longrightarrow>
   pasted_message d result =
     Inr [H4 ''Pasted XML Import Results'',
          Table_Open,
          Row ''Import Type:'' Plain [SubS (import_type d)],
          Row ''Content Length:'' Plain
            [SubN (pasted_result.content_length result), Lit '' bytes''],
          Row ''XML Valid:'' Plain [Lit (cross_mark @ '' No'')],
          Row ''Parse Error:'' Text_Danger [SubS (pasted_result.parse_error result)],
          Table_Close]"
  by (simp add: pasted_message_def pasted_head_def)

text \<open>
  What the message shows when the callback reaches the dialog: on a paste that is not
  valid XML, and on a valid one when \<open>import_type\<close> of the document is a string.
\<close>

lemma pasted_import_invalid:
  assumes "\<not> truthy_str (exc r)" and "response.message r = Val result"
    and "\<not> truthy_bool (pasted_result.xml_valid result)"
  shows "Row ''Content Length:'' Plain [SubN (pasted_result.content_length result), Lit '' bytes'']
      \<in> set (shown (import_from_pasted_content_callback frm r)) \<and>
    Row ''XML Valid:'' Plain [Lit (cross_mark @ '' No'')]
      \<in> set (shown (import_from_pasted_content_callback frm r)) \<and>
    Row ''Parse Error:'' Text_Danger [SubS (pasted_result.parse_error result)]
      \<in> set (shown (import_from_pasted_content_callback frm r)) \<and>
    row_labels (shown (import_from_pasted_content_callback frm r)) =
      [''Import Type:'', ''Content Length:'', ''XML Valid:'', ''Parse Error:'']"
  unfolding shown_pasted [OF assms(1,2)] pasted_message_invalid [OF assms(3)]
  by simp

lemma pasted_import_valid:
  assumes "\<not> truthy_str (exc r)" and "response.message r = Val result"
    and "truthy_bool (pasted_result.xml_valid result)"
    and "import_type (doc frm) = Val t"
  shows "Row ''Content Length:'' Plain [SubN (pasted_result.content_length result), Lit '' bytes'']
      \<in> set (shown (import_from_pasted_content_callback frm r)) \<and>
    Row ''XML Valid:'' Plain [Lit (check_mark @ '' Yes'')]
      \<in> set (shown (import_from_pasted_content_callback frm r)) \<and>
    Row ''Root Element:'' Plain [SubS (pasted_result.root_tag result)]
      \<in> set (shown (import_from_pasted_content_callback frm r)) \<and>
    Row ''Elements Found:'' Plain
        [SubN (pasted_result.element_count result), Lit '' '', SubLower t]
      \<in> set (shown (import_from_pasted_content_callback frm r)) \<and>
    Row ''Import Status:'' Plain [SubS (import_status result)]
      \<in> set (shown (import_from_pasted_content_callback frm r)) \<and>
    (non_empty (processed_items result) \<longrightarrow>
       (\<exists>c. Row ''Processed Items:'' Plain c
              \<in> set (shown (import_from_pasted_content_callback frm r)) \<and>
            (\<forall>item \<in> set (elements (processed_items result)). SubS (Val item) \<in> set c))) \<and>
    (non_empty (errors result) \<longrightarrow>
       (\<exists>c. Row ''Errors:'' Text_Danger c
              \<in> set (shown (import_from_pasted_content_callback frm r)) \<and>
            (\<forall>e \<in> set (elements (errors result)). SubS (Val e) \<in> set c))) \<and>
    (\<forall>di. debug_info result = Val di \<longrightarrow>
       (\<exists>c. Row ''XML Structure:'' Plain c
              \<in> set (shown (import_from_pasted_content_callback frm r)) \<and>
            SubS (debug_info.root_tag di) \<in> set c \<and>
            SubN (total_children di) \<in> set c \<and>
            (non_empty (direct_children di) \<longrightarrow>
               SubS (Val (join '', '' (elements (direct_children di)))) \<in> set c) \<and>
            (non_empty (all_unique_tags di) \<longrightarrow>
               SubS (Val (join '', '' (elements (all_unique_tags di)))) \<in> set c) \<and>
            (\<forall>t \<in> set (elements (direct_children di)).
               \<exists>pre post. join '', '' (elements (direct_children di)) = pre @ t @ post) \<and>
            (\<forall>t \<in> set (elements (all_unique_tags di)).
               \<exists>pre post. join '', '' (elements (all_unique_tags di)) = pre @ t @ post))) \<and>
    ''Parse Error:'' \<notin> set (row_labels (shown (import_from_pasted_content_callback frm r)))"
proof -
  have items: "\<forall>item \<in> set xs. SubS (Val item) \<in> set (concat (map bullet_line xs))" for xs
    using bullet_line_mem by blast
  have names: "\<forall>t \<in> set xs. \<exists>pre post. join '', '' xs = pre @ t @ post" for xs
    using join_contains by blast
  show ?thesis
    unfolding shown_pasted [OF assms(1,2)] pasted_message_valid [OF assms(3,4)]
    using items structure_dump_parts names
    by (auto simp add: row_labels_append split: js.splits)
qed

text \<open>
  Claim C3 says that for every result of \<open>import_from_pasted_content\<close> the message shows
  the content length and the \<open>xml_valid\<close> flag and, when \<open>xml_valid\<close> holds, the root
  tag, the element count, the import status, the processed items, the errors and the
  structure of the document. The script does not do so on a valid result when
  \<open>import_type\<close> of the document is unset: \<open>frm.doc.import_type.toLowerCase()\<close>
  throws while the message is built, the callback ends there, no dialog is shown, and
  the document is not reloaded after a successful import.
\<close>

theorem pasted_import_type_error:
  "truthy_bool (pasted_result.xml_valid imported_paste) \<and>
   import_status imported_paste = Val ''Success'' \<and>
   import_from_pasted_content_callback untyped_form (ok_response imported_paste) =
     [Console_Log ''Pasted XML Import Result:'', Uncaught TypeError] \<and>
   shown (import_from_pasted_content_callback untyped_form (ok_response imported_paste)) = []"
  by (simp add: import_from_pasted_content_callback_def pasted_message_def toLowerCase_def
      untyped_form_def ok_response_def imported_paste_def)

section \<open>C4: the feed debug\<close>

lemma shown_debug:
  "\<not> truthy_str (exc r) \<Longrightarrow> response.message r = Val result \<Longrightarrow>
   shown (debug_xml_feed_callback frm r) =
     (case debug_message result of Inr html \<Rightarrow> html | Inl e \<Rightarrow> [])"
  by (simp add: debug_xml_feed_callback_def split: sum.splits)

lemma debug_message_error:
  "truthy_str (debug_result.error result) \<Longrightarrow>
   debug_message result =
     Inr [H4 ''XML Feed Debug Information'',
          Table_Open,
          Row ''URL:'' Plain [SubS (url result)],
          Row ''Error:'' Text_Danger [SubS (debug_result.error result)],
          Table_Close]"
  by (simp add: debug_message_def)

lemma debug_message_fetched:
  "\<not> truthy_str (debug_result.error result) \<Longrightarrow> headers result = Val h \<Longrightarrow>
   debug_message result =
     Inr ([H4 ''XML Feed Debug Information'',
           Table_Open,
           Row ''URL:'' Plain [SubS (url result)],
           Row ''Status Code:'' Plain [SubN (status_code result)],
           Row ''Content Length:'' Plain
             [SubN (debug_result.content_length result), Lit '' bytes (stripped: '',
              SubN (content_length_stripped result), Lit '' bytes)''],
           Row ''Content Type:'' Plain
             [SubS (or_str (property h ''content-type'') (Val ''Not specified''))],
           Row ''Authentication Used:'' Plain
             [Lit (if truthy_bool (auth_used result) then ''Yes'' else ''No'')]] @
          (if truthy_bool (is_mostly_whitespace result) then
             [Row ''Content Analysis:'' Text_Warning
                [Lit (warning_sign @ '' Content is mostly whitespace'')]]
           else []) @
          (if truthy_bool (is_likely_error result) then
             [Row ''Content Analysis:'' Text_Danger
                [Lit (cross_mark @ '' Content may contain error messages'')]]
           else []) @
          [Row ''Raw Content:'' Plain
             [Lit ''<code>'', SubS (raw_content result), Lit ''</code>''],
           Row ''Formatted Content:'' Plain
             [pre_open ''max-height: 400px; overflow-y: auto; background: #f8f9fa; padding: 10px; white-space: pre-wrap;'',
              SubS (content result), Lit ''</pre>'']] @
          (if non_empty (suggested_actions result) then
             [Row ''Suggestions:'' Plain
                (concat (map bullet_line (elements (suggested_actions result))))]
           else []) @
          [Table_Close])"
  by (simp add: debug_message_def)

lemma content_type_shown:
  "or_str (property h ''content-type'') (Val ''Not specified'') =
     Val (case h ''content-type'' of
            None \<Rightarrow> ''Not specified''
          | Some v \<Rightarrow> if v = [] then ''Not specified'' else v)"
  by (simp add: or_str_def property_def split: option.splits)

text \<open>
  What the message shows when the callback reaches the dialog: on a result with
  \<open>error\<close>, and on one without when \<open>headers\<close> is there.
\<close>

lemma debug_feed_failed:
  assumes "\<not> truthy_str (exc r)" and "response.message r = Val result"
    and "truthy_str (debug_result.error result)"
  shows "Row ''URL:'' Plain [SubS (url result)] \<in> set (shown (debug_xml_feed_callback frm r)) \<and>
    Row ''Error:'' Text_Danger [SubS (debug_result.error result)]
      \<in> set (shown (debug_xml_feed_callback frm r)) \<and>
    row_labels (shown (debug_xml_feed_callback frm r)) = [''URL:'', ''Error:'']"
  unfolding shown_debug [OF assms(1,2)] debug_message_error [OF assms(3)]
  by simp

lemma debug_feed_fetched:
  assumes "\<not> truthy_str (exc r)" and "response.message r = Val result"
    and "\<not> truthy_str (debug_result.error result)"
    and "headers result = Val h"
  shows "Row ''Status Code:'' Plain [SubN (status_code result)]
      \<in> set (shown (debug_xml_feed_callback frm r)) \<and>
    Row ''Content Length:'' Plain
        [SubN (debug_result.content_length result), Lit '' bytes (stripped: '',
         SubN (content_length_stripped result), Lit '' bytes)'']
      \<in> set (shown (debug_xml_feed_callback frm r)) \<and>
    Row ''Content Type:'' Plain
        [SubS (Val (case h ''content-type'' of
                      None \<Rightarrow> ''Not specified''
                    | Some v \<Rightarrow> if v = [] then ''Not specified'' else v))]
      \<in> set (shown (debug_xml_feed_callback frm r)) \<and>
    Row ''Authentication Used:'' Plain
        [Lit (if truthy_bool (auth_used result) then ''Yes'' else ''No'')]
      \<in> set (shown (debug_xml_feed_callback frm r)) \<and>
    (\<exists>c. Row ''Raw Content:'' Plain c \<in> set (shown (debug_xml_feed_callback frm r)) \<and>
         SubS (raw_content result) \<in> set c) \<and>
    (\<exists>c. Row ''Formatted Content:'' Plain c \<in> set (shown (debug_xml_feed_callback frm r)) \<and>
         SubS (content result) \<in> set c) \<and>
    (non_empty (suggested_actions result) \<longrightarrow>
       (\<exists>c. Row ''Suggestions:'' Plain c \<in> set (shown (debug_xml_feed_callback frm r)) \<and>
            (\<forall>a \<in> set (elements (suggested_actions result)). SubS (Val a) \<in> set c)))"
proof -
  have items: "\<forall>item \<in> set xs. SubS (Val item) \<in> set (concat (map bullet_line xs))" for xs
    using bullet_line_mem by blast
  show ?thesis
    unfolding shown_debug [OF assms(1,2)] debug_message_fetched [OF assms(3,4)]
      content_type_shown
    using items by auto
qed

text \<open>
  Claim C4 says that for every result of \<open>debug_xml_feed\<close> without \<open>error\<close> the
  message shows the status code, the content lengths, the content type or
  \<open>Not specified\<close>, the authentication, the raw and the formatted content and the
  suggestions. The script does not do so on a result that has neither \<open>error\<close> nor
  \<open>headers\<close>: \<open>result.headers['content-type']\<close> throws while the message is built, the
  callback ends there, and no dialog is shown at all.
\<close>

theorem debug_feed_type_error:
  "\<not> truthy_str (debug_result.error headless_debug) \<and>
   debug_xml_feed_callback saved_form (ok_response headless_debug) =
     [Console_Log ''Debug XML Feed Result:'', Uncaught TypeError] \<and>
   shown (debug_xml_feed_callback saved_form (ok_response headless_debug)) = []"
  by (simp add: debug_xml_feed_callback_def debug_message_def ok_response_def
      headless_debug_def)

section \<open>C5: the server methods the scripts call\<close>

lemma methods_callbacks:
  "methods (trigger_manual_import_callback frm r0) = []"
  "methods (check_stream_length_callback frm r1) = []"
  "methods (debug_xml_feed_callback frm r2) = []"
  "methods (aggressive_import_check_callback frm r3) = []"
  "methods (import_from_pasted_content_callback frm r4) = []"
  "methods (test_connection_callback frm r5) = []"
  "methods (test_connection_error frm e) = []"
  "methods (settings_import_callback frm r5) = []"
  "methods (settings_import_error frm e) = []"
  by (simp_all add: trigger_manual_import_callback_def check_stream_length_callback_def
      debug_xml_feed_callback_def aggressive_import_check_callback_def
      import_from_pasted_content_callback_def test_connection_callback_def
      test_connection_error_def settings_import_callback_def settings_import_error_def
      split: js.splits sum.splits)

lemmas click_defs = trigger_manual_import_click_def check_stream_length_click_def
  debug_xml_feed_click_def aggressive_import_check_click_def pasted_xml_click_def
  pasted_primary_action_def test_xml_connection_def trigger_manual_import_def
  view_import_logs_def settings_enabled_def settings_xml_feed_url_def

lemma dispatched_Un: "dispatched (A \<union> B) = dispatched A \<union> dispatched B"
  by (auto simp add: dispatched_def)

lemma click_in_config: "b \<in> set (config_refresh frm) \<Longrightarrow> on_click b frm' \<in> config_script"
  unfolding config_script_def by blast

lemma dispatchedI: "acts \<in> S \<Longrightarrow> m \<in> set (methods acts) \<Longrightarrow> m \<in> dispatched S"
  unfolding dispatched_def by blast

lemma dispatched_config:
  "dispatched config_script =
     {''trigger_manual_import'', ''check_stream_length'', ''debug_xml_feed'',
      ''aggressive_import_check'', ''import_from_pasted_content''}"
proof
  show "dispatched config_script \<subseteq>
     {''trigger_manual_import'', ''check_stream_length'', ''debug_xml_feed'',
      ''aggressive_import_check'', ''import_from_pasted_content''}"
    unfolding dispatched_def config_script_def
    by (auto simp add: methods_callbacks config_refresh_def click_defs split: if_splits)
next
  have saved: "truthy_num (enabled (doc saved_form))" "truthy_str (xml_feed_url (doc saved_form))"
    "\<not> is_new saved_form"
    by (simp_all add: saved_form_def)
  have buttons: "trigger_manual_import_click saved_form \<in> config_script"
    "check_stream_length_click saved_form \<in> config_script"
    "debug_xml_feed_click saved_form \<in> config_script"
    "aggressive_import_check_click saved_form \<in> config_script"
    using click_in_config [of "\<lparr>label = play_sign @ '' Trigger Manual Import'',
        group = Some ''Actions'', on_click = trigger_manual_import_click\<rparr>" saved_form saved_form]
      click_in_config [of "\<lparr>label = magnifier @ '' Check Stream Length'', group = None,
        on_click = check_stream_length_click\<rparr>" saved_form saved_form]
      click_in_config [of "\<lparr>label = bug_sign @ '' Debug XML Feed'', group = None,
        on_click = debug_xml_feed_click\<rparr>" saved_form saved_form]
      click_in_config [of "\<lparr>label = direct_hit @ '' Aggressive Import Check'', group = None,
        on_click = aggressive_import_check_click\<rparr>" saved_form saved_form]
      saved
    by (simp_all add: config_refresh_def)
  have paste: "pasted_primary_action saved_form \<lparr>xml_content = Val ''<orders/>''\<rparr> \<in> config_script"
    unfolding config_script_def by auto
  have "''trigger_manual_import'' \<in> dispatched config_script"
    using dispatchedI [OF buttons(1)] by (simp add: click_defs)
  moreover have "''check_stream_length'' \<in> dispatched config_script"
    using dispatchedI [OF buttons(2)] by (simp add: click_defs)
  moreover have "''debug_xml_feed'' \<in> dispatched config_script"
    using dispatchedI [OF buttons(3)] by (simp add: click_defs)
  moreover have "''aggressive_import_check'' \<in> dispatched config_script"
    using dispatchedI [OF buttons(4)] by (simp add: click_defs)
  moreover have "''import_from_pasted_content'' \<in> dispatched config_script"
    using dispatchedI [OF paste] by (simp add: click_defs)
  ultimately show "{''trigger_manual_import'', ''check_stream_length'', ''debug_xml_feed'',
      ''aggressive_import_check'', ''import_from_pasted_content''} \<subseteq> dispatched config_script"
    by simp
qed

lemma click_in_config_basic:
  "b \<in> set (config_refresh_basic frm) \<Longrightarrow> on_click b frm' \<in> config_basic_script"
  unfolding config_basic_script_def by blast

lemma click_in_settings:
  "b \<in> set (settings_refresh frm) \<Longrightarrow> on_click b frm' \<in> settings_script"
  unfolding settings_script_def by blast

lemma dispatched_config_basic: "dispatched config_basic_script = {''trigger_manual_import''}"
proof
  show "dispatched config_basic_script \<subseteq> {''trigger_manual_import''}"
    unfolding dispatched_def config_basic_script_def
    by (auto simp add: methods_callbacks config_refresh_basic_def click_defs split: if_splits)
next
  have "\<lparr>label = ''Trigger Manual Import'', group = Some ''Actions'',
          on_click = trigger_manual_import_click\<rparr> \<in> set (config_refresh_basic saved_form)"
    by (simp add: config_refresh_basic_def saved_form_def)
  from click_in_config_basic [OF this, of saved_form]
  have "trigger_manual_import_click saved_form \<in> config_basic_script"
    by simp
  from dispatchedI [OF this]
  show "{''trigger_manual_import''} \<subseteq> dispatched config_basic_script"
    by (simp add: click_defs)
qed

lemma dispatched_settings:
  "dispatched settings_script = {''test_connection'', ''trigger_manual_import''}"
proof
  show "dispatched settings_script \<subseteq> {''test_connection'', ''trigger_manual_import''}"
    unfolding dispatched_def settings_script_def
    by (auto simp add: methods_callbacks settings_refresh_def click_defs split: if_splits)
next
  have b1: "\<lparr>label = ''Test Connection'', group = Some ''Actions'', on_click = test_xml_connection\<rparr>
          \<in> set (settings_refresh saved_form)"
    and b2: "\<lparr>label = ''Manual Import'', group = Some ''Actions'', on_click = trigger_manual_import\<rparr>
          \<in> set (settings_refresh saved_form)"
    by (simp_all add: settings_refresh_def saved_form_def)
  have "test_xml_connection saved_form \<in> settings_script"
    "trigger_manual_import saved_form \<in> settings_script"
    using click_in_settings [OF b1, of saved_form] click_in_settings [OF b2, of saved_form]
    by simp_all
  from dispatchedI [OF this(1)] dispatchedI [OF this(2)]
  show "{''test_connection'', ''trigger_manual_import''} \<subseteq> dispatched settings_script"
    by (simp add: click_defs saved_form_def)
qed

text \<open>
  Claim C5. Over the three form scripts, the methods passed to \<open>frappe.call\<close> are
  \<open>trigger_manual_import\<close>, \<open>check_stream_length\<close>, \<open>debug_xml_feed\<close>,
  \<open>aggressive_import_check\<close>, \<open>import_from_pasted_content\<close> and
  \<open>test_connection\<close>: each of them is called by some handler, and no handler calls
  another method.
\<close>

theorem dispatched_methods:
  "dispatched (config_script \<union> config_basic_script \<union> settings_script) =
     {''trigger_manual_import'', ''check_stream_length'', ''debug_xml_feed'',
      ''aggressive_import_check'', ''import_from_pasted_content'', ''test_connection''}"
  unfolding dispatched_Un dispatched_config dispatched_config_basic dispatched_settings
  by auto

section \<open>C6: the rows of the content analysis\<close>

text \<open>
  As C6 states it, the whitespace row is shown exactly when \<open>is_mostly_whitespace\<close> is
  set, and the error page row exactly when \<open>is_likely_error\<close> is set. Both rows are
  written in the branch of a result without \<open>error\<close>: a result that has \<open>error\<close>
  set together with the two flags shows neither row.
\<close>

theorem content_analysis_rows_counterexample:
  "\<not> (whitespace_row \<in> set (shown (debug_xml_feed_callback saved_form (ok_response failed_debug)))
       \<longleftrightarrow> truthy_bool (is_mostly_whitespace failed_debug)) \<and>
   \<not> (error_page_row \<in> set (shown (debug_xml_feed_callback saved_form (ok_response failed_debug)))
       \<longleftrightarrow> truthy_bool (is_likely_error failed_debug))"
  by (simp add: debug_xml_feed_callback_def ok_response_def debug_message_def failed_debug_def
      whitespace_row_def error_page_row_def)

text \<open>
  Claim C6, amended. In the message of a \<open>debug_xml_feed\<close> result whose \<open>error\<close> is
  not set and whose \<open>headers\<close> are there, the warning row
  \<open>Content is mostly whitespace\<close> is shown if and only if \<open>is_mostly_whitespace\<close> is
  set, and the danger row \<open>Content may contain error messages\<close> is shown if and only if
  \<open>is_likely_error\<close> is set. When \<open>error\<close> is set, no row of the content analysis is
  shown. (A result with neither \<open>error\<close> nor \<open>headers\<close> ends the callback with a
  \<open>TypeError\<close>, see C4; nothing is said about it here.)
\<close>

theorem content_analysis_rows:
  assumes "\<not> truthy_str (exc r)" and "response.message r = Val result"
  shows "(\<not> truthy_str (debug_result.error result) \<and> truthy_obj (headers result) \<longrightarrow>
       (whitespace_row \<in> set (shown (debug_xml_feed_callback frm r))
          \<longleftrightarrow> truthy_bool (is_mostly_whitespace result)) \<and>
       (error_page_row \<in> set (shown (debug_xml_feed_callback frm r))
          \<longleftrightarrow> truthy_bool (is_likely_error result))) \<and>
    (truthy_str (debug_result.error result) \<longrightarrow>
       ''Content Analysis:'' \<notin> set (row_labels (shown (debug_xml_feed_callback frm r))))"
proof (cases "truthy_str (debug_result.error result)")
  case True
  show ?thesis
    unfolding shown_debug [OF assms] debug_message_error [OF True]
    using True by simp
next
  case False
  show ?thesis
  proof (cases "headers result")
    case (Val h)
    show ?thesis
      unfolding shown_debug [OF assms] debug_message_fetched [OF False Val]
      using False Val
      by (simp add: whitespace_row_def error_page_row_def pre_open_def sign_defs)
  qed (use False in simp_all)
qed

text \<open>The fetch of blanks shows the whitespace row alone; the failed fetch shows none.\<close>

theorem content_analysis_rows_witness:
  "whitespace_row \<in> set (shown (debug_xml_feed_callback saved_form (ok_response blank_debug))) \<and>
   error_page_row \<notin> set (shown (debug_xml_feed_callback saved_form (ok_response blank_debug))) \<and>
   ''Content Analysis:'' \<notin>
     set (row_labels (shown (debug_xml_feed_callback saved_form (ok_response failed_debug))))"
proof -
  have ok: "\<not> truthy_str (exc (ok_response m))" "response.message (ok_response m) = Val m"
    for m :: debug_result
    by (simp_all add: ok_response_def)
  have fields: "truthy_str (debug_result.error failed_debug)"
    "\<not> truthy_str (debug_result.error blank_debug)"
    "truthy_obj (headers blank_debug)"
    "truthy_bool (is_mostly_whitespace blank_debug)"
    "\<not> truthy_bool (is_likely_error blank_debug)"
    by (simp_all add: failed_debug_def blank_debug_def)
  show ?thesis
    using content_analysis_rows [OF ok, of failed_debug saved_form]
      content_analysis_rows [OF ok, of blank_debug saved_form] fields
    by simp
qed

section \<open>C7: the aggressive import check asks first\<close>

lemma calls_behind_callbacks:
  "calls_behind ts (trigger_manual_import_callback frm r0) = []"
  "calls_behind ts (check_stream_length_callback frm r1) = []"
  "calls_behind ts (debug_xml_feed_callback frm r2) = []"
  "calls_behind ts (aggressive_import_check_callback frm r3) = []"
  "calls_behind ts (import_from_pasted_content_callback frm r4) = []"
  by (simp_all add: trigger_manual_import_callback_def check_stream_length_callback_def
      debug_xml_feed_callback_def aggressive_import_check_callback_def
      import_from_pasted_content_callback_def split: js.splits sum.splits)

text \<open>
  Claim C7. The button of the aggressive import check shows a confirmation whose text
  announces 5 checks of the feed, 50 seconds in total; \<open>aggressive_import_check\<close> is
  called only in the continuation of that confirmation, so that without the confirmation
  the handler calls nothing and with it exactly this method; and nowhere else in the
  script is the method called behind another confirmation or behind none.
\<close>

theorem aggressive_check_needs_confirmation:
  "aggressive_import_check_click frm =
     [Confirm
        [Lit ''This will check the feed 5 times (50 seconds total) and import immediately if orders are found. Continue?'']
        [Call ''aggressive_import_check'' (doc frm) [] Cb_aggressive_import_check None]] \<and>
   methods (performed False (aggressive_import_check_click frm)) = [] \<and>
   methods (performed True (aggressive_import_check_click frm)) = [''aggressive_import_check''] \<and>
   (\<forall>acts \<in> config_script. \<forall>c \<in> set (calls_behind [] acts).
      snd c = ''aggressive_import_check'' \<longrightarrow> fst c = [aggressive_confirm_text])"
proof -
  have "\<forall>acts \<in> config_script. \<forall>c \<in> set (calls_behind [] acts).
      snd c = ''aggressive_import_check'' \<longrightarrow> fst c = [aggressive_confirm_text]"
    unfolding config_script_def
    by (auto simp add: calls_behind_callbacks config_refresh_def click_defs split: if_splits)
  then show ?thesis
    by (simp add: aggressive_import_check_click_def aggressive_confirm_text_def)
qed

text \<open>The button on a saved form with a feed URL.\<close>

theorem aggressive_check_needs_confirmation_witness:
  "aggressive_import_check_click saved_form \<in> config_script \<and>
   calls_behind [] (aggressive_import_check_click saved_form) =
     [([[Lit ''This will check the feed 5 times (50 seconds total) and import immediately if orders are found. Continue?'']],
       ''aggressive_import_check'')] \<and>
   fst (hd (calls_behind [] (aggressive_import_check_click saved_form))) = [aggressive_confirm_text] \<and>
   methods (performed False (aggressive_import_check_click saved_form)) = []"
proof -
  have "\<lparr>label = direct_hit @ '' Aggressive Import Check'', group = None,
          on_click = aggressive_import_check_click\<rparr> \<in> set (config_refresh saved_form)"
    by (simp add: config_refresh_def saved_form_def)
  from click_in_config [OF this, of saved_form]
  have mem: "aggressive_import_check_click saved_form \<in> config_script"
    by simp
  have calls: "calls_behind [] (aggressive_import_check_click saved_form) =
      [([aggressive_confirm_text], ''aggressive_import_check'')]"
    by (simp add: aggressive_import_check_click_def)
  show ?thesis
    using aggressive_check_needs_confirmation [of saved_form] mem calls
    by (auto simp add: aggressive_confirm_text_def)
qed

section \<open>C8: the manual import of the settings form\<close>

lemma performed_settings_import:
  "performed confirmed (trigger_manual_import frm) =
     Confirm
       [Lit ''Are you sure you want to trigger a manual import?<br><br>This may take some time depending on the feed size.'']
       [] #
     (if confirmed then
        [Show_Alert [Lit ''Starting import...''] ''blue'',
         Disable_Form,
         Call ''trigger_manual_import'' (doc frm) [] Cb_settings_manual_import
           (Some Err_settings_manual_import)]
      else [])"
  by (simp add: trigger_manual_import_def)

text \<open>
  Claim C8. In the manual import of the settings form, \<open>frm.disable_form()\<close> comes
  right before the call of \<open>trigger_manual_import\<close>, and only after the confirmation;
  the callback starts with \<open>frm.enable_form()\<close> on every response, successful or not,
  and so does the error callback; \<open>frm.reload_doc()\<close> is performed by the callback
  exactly when the response has a message whose \<open>success\<close> is truthy, and neither by the
  error callback nor before the call.
\<close>

theorem settings_import_locks_form:
  "(\<exists>before. performed True (trigger_manual_import frm) =
       before @ [Disable_Form,
                 Call ''trigger_manual_import'' (doc frm) [] Cb_settings_manual_import
                   (Some Err_settings_manual_import)]) \<and>
   methods (performed False (trigger_manual_import frm)) = [] \<and>
   Disable_Form \<notin> set (performed False (trigger_manual_import frm)) \<and>
   (\<exists>rest. settings_import_callback frm r = Enable_Form # rest) \<and>
   (\<exists>rest. settings_import_error frm err = Enable_Form # rest) \<and>
   (Reload_Doc \<in> set (settings_import_callback frm r) \<longleftrightarrow>
      (\<exists>m. response.message r = Val m \<and> truthy_bool (success m))) \<and>
   Reload_Doc \<notin> set (settings_import_error frm err) \<and>
   Reload_Doc \<notin> set (performed confirmed (trigger_manual_import frm))"
proof -
  have "performed True (trigger_manual_import frm) =
      [Confirm
         [Lit ''Are you sure you want to trigger a manual import?<br><br>This may take some time depending on the feed size.'']
         [],
       Show_Alert [Lit ''Starting import...''] ''blue''] @
      [Disable_Form,
       Call ''trigger_manual_import'' (doc frm) [] Cb_settings_manual_import
         (Some Err_settings_manual_import)]"
    by (simp add: performed_settings_import)
  then have before: "\<exists>before. performed True (trigger_manual_import frm) =
       before @ [Disable_Form,
                 Call ''trigger_manual_import'' (doc frm) [] Cb_settings_manual_import
                   (Some Err_settings_manual_import)]"
    by blast
  have reload: "Reload_Doc \<in> set (settings_import_callback frm r) \<longleftrightarrow>
      (\<exists>m. response.message r = Val m \<and> truthy_bool (success m))"
    by (cases "response.message r")
       (simp_all add: settings_import_callback_def succeeded_def)
  show ?thesis
    using before reload
    by (simp add: performed_settings_import settings_import_callback_def
        settings_import_error_def)
qed

section \<open>C9: the connection test of the settings form\<close>

lemma succeeded_iff:
  "succeeded r \<longleftrightarrow> (\<exists>m. response.message r = Val m \<and> truthy_bool (success m))"
  by (cases "response.message r") (simp_all add: succeeded_def)

text \<open>
  As C9 states it, once the call is made a dialog follows: the successful one if the
  response has a message whose \<open>success\<close> is truthy, a failed one otherwise. When the
  request itself fails, \<open>frappe.call\<close> runs the \<open>error\<close> handler of the script, which
  raises an alert and shows no dialog, neither the successful nor the failed one.
\<close>

theorem connection_test_dialogs_counterexample:
  "methods (test_xml_connection saved_form) = [''test_connection''] \<and>
   \<not> (Some ''Connection Test Successful''
        \<in> set (dialog_titles (test_connection_completed saved_form (Request_Failed timeout_error)))) \<and>
   \<not> (Some ''Connection Test Failed''
        \<in> set (dialog_titles (test_connection_completed saved_form (Request_Failed timeout_error))))"
  by (simp add: test_xml_connection_def saved_form_def test_connection_completed_def
      test_connection_error_def)

text \<open>
  Claim C9, amended. If \<open>xml_feed_url\<close> of the document is empty, the connection test
  calls no method and shows the request to enter the URL, nothing else; otherwise it calls
  \<open>test_connection\<close>. When the call ends with a response, one dialog is shown: the
  successful one exactly when the response has a message whose \<open>success\<close> is truthy,
  the failed one otherwise, with the message of the response, or
  \<open>Connection test failed\<close> when the response has no message. When the request fails,
  the red alert \<open>Connection test failed\<close> is raised and no dialog is shown.
\<close>

theorem connection_test_dialogs:
  "(\<not> truthy_str (xml_feed_url (doc frm)) \<longrightarrow>
      test_xml_connection frm =
        [Msgprint None [Text [Lit ''Please enter XML Feed URL first'']] None False] \<and>
      methods (test_xml_connection frm) = []) \<and>
   (truthy_str (xml_feed_url (doc frm)) \<longrightarrow>
      test_xml_connection frm =
        [Show_Alert [Lit ''Testing connection...''] ''blue'',
         Call ''test_connection'' (doc frm) [] Cb_test_connection (Some Err_test_connection)] \<and>
      methods (test_xml_connection frm) = [''test_connection'']) \<and>
   dialog_titles (test_connection_completed frm (Responded r)) =
     [Some (if (\<exists>m. response.message r = Val m \<and> truthy_bool (success m))
            then ''Connection Test Successful'' else ''Connection Test Failed'')] \<and>
   (\<forall>m. response.message r = Val m \<longrightarrow>
      shown (test_connection_completed frm (Responded r)) = [Text [SubS (outcome.message m)]]) \<and>
   (\<not> truthy_obj (response.message r) \<longrightarrow>
      shown (test_connection_completed frm (Responded r)) =
        [Text [Lit ''Connection test failed'']]) \<and>
   test_connection_completed frm (Request_Failed err) =
     [Show_Alert [Lit ''Connection test failed''] ''red''] \<and>
   dialog_titles (test_connection_completed frm (Request_Failed err)) = []"
proof -
  have titles: "dialog_titles (test_connection_callback frm r) =
     [Some (if (\<exists>m. response.message r = Val m \<and> truthy_bool (success m))
            then ''Connection Test Successful'' else ''Connection Test Failed'')]"
    unfolding succeeded_iff [symmetric]
    by (cases "response.message r")
       (simp_all add: test_connection_callback_def succeeded_def)
  have texts: "shown (test_connection_callback frm r) =
     (case response.message r of
        Val m \<Rightarrow> [Text [SubS (outcome.message m)]]
      | _ \<Rightarrow> [Text [Lit ''Connection test failed'']])"
    by (cases "response.message r")
       (simp_all add: test_connection_callback_def succeeded_def message_or_def)
  have completed: "test_connection_completed frm (Responded r) = test_connection_callback frm r"
    "test_connection_completed frm (Request_Failed err) =
       [Show_Alert [Lit ''Connection test failed''] ''red'']"
    by (simp_all add: test_connection_completed_def test_connection_error_def)
  show ?thesis
    unfolding completed titles texts
    by (cases "response.message r") (simp_all add: test_xml_connection_def)
qed

text \<open>
  A form without URL, a failed test with a message, a response without one, and a
  request that timed out.
\<close>

theorem connection_test_dialogs_witness:
  "test_xml_connection blank_url_form =
     [Msgprint None [Text [Lit ''Please enter XML Feed URL first'']] None False] \<and>
   methods (test_xml_connection saved_form) = [''test_connection''] \<and>
   shown (test_connection_completed saved_form (Responded failed_test)) =
     [Text [SubS (Val ''HTTP 404'')]] \<and>
   shown (test_connection_completed saved_form (Responded empty_response)) =
     [Text [Lit ''Connection test failed'']] \<and>
   dialog_titles (test_connection_completed saved_form (Request_Failed timeout_error)) = []"
proof -
  have urls: "\<not> truthy_str (xml_feed_url (doc blank_url_form))"
    "truthy_str (xml_feed_url (doc saved_form))"
    by (simp_all add: blank_url_form_def saved_form_def)
  have responses:
    "response.message failed_test = Val \<lparr>success = Val False, outcome.message = Val ''HTTP 404''\<rparr>"
    "\<not> truthy_obj (response.message empty_response)"
    by (simp_all add: failed_test_def empty_response_def)
  show ?thesis
    using connection_test_dialogs [of blank_url_form]
      connection_test_dialogs [of saved_form failed_test timeout_error]
      connection_test_dialogs [of saved_form empty_response timeout_error]
      urls responses
    by simp
qed

section \<open>C10: the buttons of the configuration form\<close>

lemma labels_config_refresh:
  "labels (config_refresh frm) =
     (if truthy_num (enabled (doc frm)) \<and> truthy_str (xml_feed_url (doc frm)) \<and> \<not> is_new frm
      then [play_sign @ '' Trigger Manual Import''] else []) @
     (if truthy_str (xml_feed_url (doc frm)) \<and> \<not> is_new frm
      then [magnifier @ '' Check Stream Length'', bug_sign @ '' Debug XML Feed'',
            direct_hit @ '' Aggressive Import Check''] else []) @
     (if \<not> is_new frm then [clipboard @ '' Debug Import from Pasted XML''] else [])"
  by (simp add: labels_def config_refresh_def)

lemma labels_config_refresh_basic:
  "labels (config_refresh_basic frm) =
     (if truthy_num (enabled (doc frm)) \<and> truthy_str (xml_feed_url (doc frm)) \<and> \<not> is_new frm
      then [''Trigger Manual Import''] else [])"
  by (simp add: labels_def config_refresh_basic_def)

lemma label_mem: "b \<in> set bs \<Longrightarrow> label b \<in> set (labels bs)"
  by (simp add: labels_def)

text \<open>
  Claim C10. In the XML Import Configuration form, each of the buttons for the stream
  length, the feed debug and the aggressive import check is added exactly when the
  document is saved and has a feed URL; the button for the manual import, in the full
  script and in the one with this button alone, needs the \<open>enabled\<close> flag on top; the
  button for the pasted XML is added exactly when the document is saved; and every button
  but this last one is added only to a saved document with a feed URL.
\<close>

theorem config_button_conditions:
  "(play_sign @ '' Trigger Manual Import'' \<in> set (labels (config_refresh frm)) \<longleftrightarrow>
      truthy_num (enabled (doc frm)) \<and> truthy_str (xml_feed_url (doc frm)) \<and> \<not> is_new frm) \<and>
   (magnifier @ '' Check Stream Length'' \<in> set (labels (config_refresh frm)) \<longleftrightarrow>
      truthy_str (xml_feed_url (doc frm)) \<and> \<not> is_new frm) \<and>
   (bug_sign @ '' Debug XML Feed'' \<in> set (labels (config_refresh frm)) \<longleftrightarrow>
      truthy_str (xml_feed_url (doc frm)) \<and> \<not> is_new frm) \<and>
   (direct_hit @ '' Aggressive Import Check'' \<in> set (labels (config_refresh frm)) \<longleftrightarrow>
      truthy_str (xml_feed_url (doc frm)) \<and> \<not> is_new frm) \<and>
   (clipboard @ '' Debug Import from Pasted XML'' \<in> set (labels (config_refresh frm)) \<longleftrightarrow>
      \<not> is_new frm) \<and>
   (\<forall>b \<in> set (config_refresh frm).
      label b \<noteq> clipboard @ '' Debug Import from Pasted XML'' \<longrightarrow>
      truthy_str (xml_feed_url (doc frm)) \<and> \<not> is_new frm) \<and>
   (''Trigger Manual Import'' \<in> set (labels (config_refresh_basic frm)) \<longleftrightarrow>
      truthy_num (enabled (doc frm)) \<and> truthy_str (xml_feed_url (doc frm)) \<and> \<not> is_new frm)"
proof -
  have 1: "play_sign @ '' Trigger Manual Import'' \<in> set (labels (config_refresh frm)) \<longleftrightarrow>
      truthy_num (enabled (doc frm)) \<and> truthy_str (xml_feed_url (doc frm)) \<and> \<not> is_new frm"
    unfolding labels_config_refresh by (simp add: sign_defs)
  have 2: "magnifier @ '' Check Stream Length'' \<in> set (labels (config_refresh frm)) \<longleftrightarrow>
      truthy_str (xml_feed_url (doc frm)) \<and> \<not> is_new frm"
    unfolding labels_config_refresh by (simp add: sign_defs)
  have 3: "bug_sign @ '' Debug XML Feed'' \<in> set (labels (config_refresh frm)) \<longleftrightarrow>
      truthy_str (xml_feed_url (doc frm)) \<and> \<not> is_new frm"
    unfolding labels_config_refresh by (simp add: sign_defs)
  have 4: "direct_hit @ '' Aggressive Import Check'' \<in> set (labels (config_refresh frm)) \<longleftrightarrow>
      truthy_str (xml_feed_url (doc frm)) \<and> \<not> is_new frm"
    unfolding labels_config_refresh by (simp add: sign_defs)
  have 5: "clipboard @ '' Debug Import from Pasted XML'' \<in> set (labels (config_refresh frm)) \<longleftrightarrow>
      \<not> is_new frm"
    unfolding labels_config_refresh by (simp add: sign_defs)
  have 6: "truthy_str (xml_feed_url (doc frm)) \<and> \<not> is_new frm"
    if "b \<in> set (config_refresh frm)"
      and "label b \<noteq> clipboard @ '' Debug Import from Pasted XML''" for b
  proof -
    from that(1) have "label b \<in> set (labels (config_refresh frm))"
      by (rule label_mem)
    with that(2) show ?thesis
      unfolding labels_config_refresh by (auto split: if_splits)
  qed
  have 7: "''Trigger Manual Import'' \<in> set (labels (config_refresh_basic frm)) \<longleftrightarrow>
      truthy_num (enabled (doc frm)) \<and> truthy_str (xml_feed_url (doc frm)) \<and> \<not> is_new frm"
    unfolding labels_config_refresh_basic by simp
  from 1 2 3 4 5 6 7 show ?thesis by blast
qed

text \<open>A saved form, a disabled one, one without URL, and a new one.\<close>

theorem config_button_conditions_witness:
  "labels (config_refresh saved_form) =
     [play_sign @ '' Trigger Manual Import'', magnifier @ '' Check Stream Length'',
      bug_sign @ '' Debug XML Feed'', direct_hit @ '' Aggressive Import Check'',
      clipboard @ '' Debug Import from Pasted XML''] \<and>
   play_sign @ '' Trigger Manual Import'' \<notin> set (labels (config_refresh disabled_form)) \<and>
   magnifier @ '' Check Stream Length'' \<in> set (labels (config_refresh disabled_form)) \<and>
   labels (config_refresh no_url_form) = [clipboard @ '' Debug Import from Pasted XML''] \<and>
   labels (config_refresh new_form) = [] \<and>
   labels (config_refresh_basic saved_form) = [''Trigger Manual Import'']"
proof -
  have forms: "truthy_num (enabled (doc saved_form))" "truthy_str (xml_feed_url (doc saved_form))"
    "\<not> is_new saved_form"
    "\<not> truthy_num (enabled (doc disabled_form))" "truthy_str (xml_feed_url (doc disabled_form))"
    "\<not> is_new disabled_form"
    "\<not> truthy_str (xml_feed_url (doc no_url_form))" "\<not> is_new no_url_form"
    "is_new new_form"
    by (simp_all add: saved_form_def disabled_form_def no_url_form_def new_form_def)
  have lists: "labels (config_refresh saved_form) =
     [play_sign @ '' Trigger Manual Import'', magnifier @ '' Check Stream Length'',
      bug_sign @ '' Debug XML Feed'', direct_hit @ '' Aggressive Import Check'',
      clipboard @ '' Debug Import from Pasted XML'']"
    "labels (config_refresh no_url_form) = [clipboard @ '' Debug Import from Pasted XML'']"
    "labels (config_refresh new_form) = []"
    "labels (config_refresh_basic saved_form) = [''Trigger Manual Import'']"
    using forms by (simp_all add: labels_def config_refresh_def config_refresh_basic_def)
  show ?thesis
    using config_button_conditions [of disabled_form] forms lists
    by simp
qed

end
